theory Spec2Isabelle
  imports Complex_Main
begin

section \<open>Observable behaviour of a command\<close>

text \<open>
  Both commands are a single Go function \<open>run\<close> that talks to the reporter, to the OCM
  connection and to the remote service, and that leaves either by returning, by
  \<open>os.Exit\<close> or by a run-time panic. A run is modelled by the list of things it did (its
  trace) and the way it ended. The trace records the reporter's output, the opening and
  closing of the OCM connection and the mutating requests sent to the service.

  A Go \<open>error\<close> is represented by its message. Format strings are copied from the
  source with a backquote in the place of each apostrophe.
\<close>

type_synonym error = string

text \<open>The arguments handed to a \<open>Printf\<close>-style reporter call, kept as they are passed.\<close>

datatype arg =
    S string
  | E error
  | L "string list"

text \<open>
  A \<open>float64\<close>: the rational it denotes when it is finite, or one of the three special
  values. The two zeros are not told apart.
\<close>

datatype float64 = Finite rat | PosInf | NegInf | NaN

text \<open>\<open>time.Time\<close> in UTC: nanoseconds since 1970-01-01 00:00:00 UTC.\<close>

type_synonym Time = int

record UpgradePolicy =
  ScheduleType :: string
  Version :: string
  NextRun :: Time

datatype event =
    Errorf string "arg list"
  | Warnf string "arg list"
  | Infof string "arg list"
  | Debugf string "arg list"
  | OpenConnection
  | CloseConnection
  | DeleteUser string string string
      \<comment> \<open>cluster id, group, user: \<open>Cluster(id).Groups().Group(role).Users().User(u).Delete().Send()\<close>\<close>
  | AddUpgradePolicy string UpgradePolicy
      \<comment> \<open>cluster id, body: \<open>Cluster(id).UpgradePolicies().Add().Body(p).Send()\<close>\<close>
  | UpdateCluster string float64
      \<comment> \<open>cluster id, node drain grace period in minutes: \<open>Cluster(id).Update().Body(spec).Send()\<close>\<close>

text \<open>
  How \<open>run\<close> is left before its end: \<open>os.Exit(n)\<close>, or a run-time panic. A step of the
  command yields its trace and either such an early end or a value to go on with.
\<close>

datatype abort = Exit int | Panic string

type_synonym 'a step = "event list \<times> (abort + 'a)"

text \<open>How the process ends: \<open>Returned\<close> is the normal return of \<open>run\<close> (exit code 0).\<close>

datatype outcome = Exited int | Returned | Panicked string

definition emit :: "event \<Rightarrow> 'a step \<Rightarrow> 'a step" where
  "emit e m = (e # fst m, snd m)"

definition fatal :: "string \<Rightarrow> arg list \<Rightarrow> 'a step" where
  \<comment> \<open>\<open>reporter.Errorf(...); os.Exit(1)\<close>\<close>
  "fatal fmt as = ([Errorf fmt as], Inl (Exit 1))"

definition bind :: "'a step \<Rightarrow> ('a \<Rightarrow> 'b step) \<Rightarrow> 'b step" where
  "bind m f =
     (case snd m of
        Inl a \<Rightarrow> (fst m, Inl a)
      | Inr x \<Rightarrow> (fst m @ fst (f x), snd (f x)))"

text \<open>
  The deferred function registered right after the connection is built:
  \<^verbatim>\<open>
  defer func() {
      err = ocmConnection.Close()
      if err != nil { reporter.Errorf("Failed to close OCM connection: %v", err) }
  }()
  \<close>
\<close>

definition deferred_close :: "error option \<Rightarrow> event list" where
  "deferred_close close_err =
     CloseConnection #
     (case close_err of
        None \<Rightarrow> []
      | Some err \<Rightarrow> [Errorf ''Failed to close OCM connection: %v'' [E err]])"

text \<open>
  The rest of \<open>run\<close> under that \<open>defer\<close>. Go runs deferred functions when the function
  returns and while a panic unwinds the stack; \<open>os.Exit\<close> ends the process at once and
  runs none of them.
\<close>

definition with_deferred_close :: "error option \<Rightarrow> unit step \<Rightarrow> event list \<times> outcome" where
  "with_deferred_close close_err body =
     (case snd body of
        Inr _ \<Rightarrow> (fst body @ deferred_close close_err, Returned)
      | Inl (Panic msg) \<Rightarrow> (fst body @ deferred_close close_err, Panicked msg)
      | Inl (Exit n) \<Rightarrow> (fst body, Exited n))"

definition finish :: "unit step \<Rightarrow> event list \<times> outcome" where
  \<comment> \<open>the part of \<open>run\<close> before any \<open>defer\<close>\<close>
  "finish body =
     (case snd body of
        Inr _ \<Rightarrow> (fst body, Returned)
      | Inl (Panic msg) \<Rightarrow> (fst body, Panicked msg)
      | Inl (Exit n) \<Rightarrow> (fst body, Exited n))"

fun is_mutation :: "event \<Rightarrow> bool" where
  "is_mutation (DeleteUser _ _ _) = True"
| "is_mutation (AddUpgradePolicy _ _) = True"
| "is_mutation (UpdateCluster _ _) = True"
| "is_mutation _ = False"

definition mutations :: "event list \<Rightarrow> event list" where
  "mutations es = filter is_mutation es"


text \<open>
  The first two lines of both \<open>run\<close> functions:
  \<^verbatim>\<open>
  reporter := rprtr.CreateReporterOrExit()
  logger := logging.CreateLoggerOrExit(reporter)
  \<close>
  The two helpers belong to other packages of the repository. Each either returns or
  ends the process itself; \<open>Some n\<close> stands for ending it with exit code \<open>n\<close>.
\<close>

definition create_reporter :: "int option \<Rightarrow> int option \<Rightarrow> unit step" where
  "create_reporter reporter_exit logger_exit =
     (case reporter_exit of
        Some n \<Rightarrow> ([], Inl (Exit n))
      | None \<Rightarrow>
          (case logger_exit of
             Some n \<Rightarrow> ([], Inl (Exit n))
           | None \<Rightarrow> ([], Inr ())))"


section \<open>The Go library functions the upgrade command calls\<close>

text \<open>
  The standard library is not part of the repository. Each function below is modelled
  exactly on the inputs the command's own formatting produces (whole numbers in decimal,
  dates from 1970 to 9999 in the two layouts used), and is left to a parameter
  everywhere else.
\<close>

record go_lib =
  ParseFloat_rest :: "string \<Rightarrow> error + float64"
  round64 :: "rat \<Rightarrow> float64"
      \<comment> \<open>the \<open>float64\<close> nearest to a real number\<close>
  int_rest :: "float64 \<Rightarrow> int"
  Format_rest :: "Time \<Rightarrow> string \<Rightarrow> string"
  Parse_rest :: "string \<Rightarrow> string \<Rightarrow> error + Time"

subsection \<open>\<open>strings.Split\<close>, \<open>fmt.Sprintf("%d")\<close>, \<open>strconv.ParseFloat\<close>\<close>

text \<open>
  \<open>strings.Split(s, sep)\<close> for a separator of one byte: one more part than there are
  separators in \<open>s\<close>, so never an empty slice.
\<close>

fun Split :: "string \<Rightarrow> char \<Rightarrow> string list" where
  "Split [] sep = [[]]"
| "Split (c # cs) sep =
     (if c = sep then [] # Split cs sep
      else (case Split cs sep of
              [] \<Rightarrow> [[c]]
            | p # ps \<Rightarrow> (c # p) # ps))"

definition digit_char :: "int \<Rightarrow> char" where
  "digit_char n = ''0123456789'' ! nat n"

definition is_digit :: "char \<Rightarrow> bool" where
  "is_digit c = (c \<in> set ''0123456789'')"

definition digit_val :: "char \<Rightarrow> int" where
  \<comment> \<open>the position of a digit among the ten digits\<close>
  "digit_val c = int (length (takeWhile (\<lambda>d. d \<noteq> c) ''0123456789''))"

definition dec_val :: "string \<Rightarrow> int" where
  "dec_val ds = foldl (\<lambda>a c. 10 * a + digit_val c) 0 ds"

function decimal :: "int \<Rightarrow> string" where
  "decimal n = (if n < 10 then [digit_char n] else decimal (n div 10) @ [digit_char (n mod 10)])"
  by pat_completeness auto
termination
  by (relation "measure nat") auto

text \<open>The verb \<open>%d\<close> of \<open>fmt.Sprintf\<close> on an \<open>int\<close>.\<close>

definition Itoa :: "int \<Rightarrow> string" where
  "Itoa i = (if i < 0 then CHR ''-'' # decimal (- i) else decimal i)"

definition Sprintf_d_s :: "int \<Rightarrow> string \<Rightarrow> string" where
  \<comment> \<open>\<open>fmt.Sprintf("%d %s", val, unit)\<close>\<close>
  "Sprintf_d_s val unit = Itoa val @ '' '' @ unit"

text \<open>
  \<open>strconv.ParseFloat(s, 64)\<close>. A string of decimal digits, with or without a minus
  sign, whose value is at most \<open>2^53\<close> is accepted and denotes exactly that whole number.
\<close>

definition is_decimal :: "string \<Rightarrow> bool" where
  "is_decimal ds = (ds \<noteq> [] \<and> list_all is_digit ds \<and> dec_val ds \<le> 2 ^ 53)"

definition ParseFloat :: "go_lib \<Rightarrow> string \<Rightarrow> error + float64" where
  "ParseFloat lib s =
     (if is_decimal s then Inr (Finite (of_int (dec_val s)))
      else case s of
             c # ds \<Rightarrow> if c = CHR ''-'' \<and> is_decimal ds
                       then Inr (Finite (- of_int (dec_val ds)))
                       else ParseFloat_rest lib s
           | [] \<Rightarrow> ParseFloat_rest lib s)"

text \<open>
  The product \<open>x * 60\<close> of \<open>float64\<close>: exact when \<open>x\<close> is a whole number and the product is
  at most \<open>2^53\<close> in size, rounded otherwise.
\<close>

definition is_whole :: "rat \<Rightarrow> bool" where
  "is_whole x = (of_int \<lfloor>x\<rfloor> = x)"

fun mul60 :: "go_lib \<Rightarrow> float64 \<Rightarrow> float64" where
  "mul60 lib (Finite x) =
     (if is_whole x \<and> \<bar>x * 60\<bar> \<le> 2 ^ 53 then Finite (x * 60) else round64 lib (x * 60))"
| "mul60 lib PosInf = PosInf"
| "mul60 lib NegInf = NegInf"
| "mul60 lib NaN = NaN"

text \<open>
  The conversion \<open>int(x)\<close> of a \<open>float64\<close>: the fraction is dropped (towards zero) when the
  result fits an \<open>int\<close> of 64 bits.
\<close>

definition int_of_float64 :: "go_lib \<Rightarrow> float64 \<Rightarrow> int" where
  "int_of_float64 lib f =
     (case f of
        Finite x \<Rightarrow>
          if \<bar>x\<bar> < 2 ^ 63 then (if 0 \<le> x then \<lfloor>x\<rfloor> else \<lceil>x\<rceil>) else int_rest lib f
      | _ \<Rightarrow> int_rest lib f)"

subsection \<open>\<open>time.Format\<close> and \<open>time.Parse\<close>\<close>

definition isLeap :: "int \<Rightarrow> bool" where
  "isLeap year = (year mod 4 = 0 \<and> (if year mod 100 = 0 then year mod 400 = 0 else True))"

definition daysInYear :: "int \<Rightarrow> int" where
  "daysInYear year = (if isLeap year then 366 else 365)"

definition daysIn :: "int \<Rightarrow> int \<Rightarrow> int" where
  "daysIn month year =
     (if month = 2 then (if isLeap year then 29 else 28)
      else if month = 4 \<or> month = 6 \<or> month = 9 \<or> month = 11 then 30
      else 31)"

text \<open>The year a day falls in, counting days from the first day of \<open>year\<close>.\<close>

function year_of_days :: "int \<Rightarrow> int \<Rightarrow> int \<times> int" where
  "year_of_days year n =
     (if n < daysInYear year then (year, n)
      else year_of_days (year + 1) (n - daysInYear year))"
  by pat_completeness auto
termination
  by (relation "measure (\<lambda>(year, n). nat n)") (auto simp: daysInYear_def split: if_splits)

function month_of_days :: "int \<Rightarrow> int \<Rightarrow> int \<Rightarrow> int \<times> int" where
  "month_of_days year month n =
     (if 12 \<le> month \<or> n < daysIn month year then (month, n)
      else month_of_days year (month + 1) (n - daysIn month year))"
  by pat_completeness auto
termination
  by (relation "measure (\<lambda>(year, month, n). nat (12 - month))") auto

text \<open>Days from 1970-01-01 to the first day of a year, and from there to a month.\<close>

definition days_before_year :: "int \<Rightarrow> int" where
  "days_before_year year =
     365 * (year - 1970) + ((year - 1) div 4 - (year - 1) div 100 + (year - 1) div 400) - 477"

definition days_before_month :: "int \<Rightarrow> int \<Rightarrow> int" where
  "days_before_month year month = sum_list (map (\<lambda>m. daysIn m year) [1..month - 1])"

definition pad2 :: "int \<Rightarrow> string" where
  "pad2 n = [digit_char (n div 10 mod 10), digit_char (n mod 10)]"

definition pad4 :: "int \<Rightarrow> string" where
  "pad4 n = [digit_char (n div 1000 mod 10), digit_char (n div 100 mod 10),
             digit_char (n div 10 mod 10), digit_char (n mod 10)]"

text \<open>The instants from 1970-01-01 00:00 up to, not including, 10000-01-01 00:00 UTC.\<close>

definition Format_exact :: "Time \<Rightarrow> bool" where
  "Format_exact t = (0 \<le> t \<and> t < 253402300800 * 1000000000)"

text \<open>Year, month, day, hour and minute of an instant, in UTC.\<close>

definition civil :: "Time \<Rightarrow> int \<times> int \<times> int \<times> int \<times> int" where
  "civil t =
     (let sec = t div 1000000000;
          (year, yday) = year_of_days 1970 (sec div 86400);
          (month, mday) = month_of_days year 1 yday
      in (year, month, mday + 1, sec mod 86400 div 3600, sec mod 3600 div 60))"

text \<open>\<open>t.Format(layout)\<close> for a time in UTC.\<close>

definition Format :: "go_lib \<Rightarrow> Time \<Rightarrow> string \<Rightarrow> string" where
  "Format lib t layout =
     (case civil t of (year, month, day, hour, minute) \<Rightarrow>
        if Format_exact t \<and> layout = ''2006-01-02''
        then pad4 year @ ''-'' @ pad2 month @ ''-'' @ pad2 day
        else if Format_exact t \<and> layout = ''15:04''
        then pad2 hour @ '':'' @ pad2 minute
        else Format_rest lib t layout)"

definition Date :: "int \<Rightarrow> int \<Rightarrow> int \<Rightarrow> int \<Rightarrow> int \<Rightarrow> Time" where
  "Date year month day hour minute =
     ((days_before_year year + days_before_month year month + (day - 1)) * 86400
        + hour * 3600 + minute * 60) * 1000000000"

text \<open>
  \<open>time.Parse(layout, value)\<close>. For the layout \<open>2006-01-02 15:04\<close>, a value of the shape
  \<open>dddd-dd-dd dd:dd\<close> that names a minute of a day from 1970 on is accepted and denotes
  that minute in UTC.
\<close>

definition Parse :: "go_lib \<Rightarrow> string \<Rightarrow> string \<Rightarrow> error + Time" where
  "Parse lib layout v =
     (let year = dec_val (take 4 v); month = dec_val (take 2 (drop 5 v));
          day = dec_val (take 2 (drop 8 v)); hour = dec_val (take 2 (drop 11 v));
          minute = dec_val (take 2 (drop 14 v))
      in if layout = ''2006-01-02 15:04'' \<and> length v = 16
            \<and> list_all is_digit (take 4 v) \<and> v ! 4 = CHR ''-''
            \<and> list_all is_digit (take 2 (drop 5 v)) \<and> v ! 7 = CHR ''-''
            \<and> list_all is_digit (take 2 (drop 8 v)) \<and> v ! 10 = CHR '' ''
            \<and> list_all is_digit (take 2 (drop 11 v)) \<and> v ! 13 = CHR '':''
            \<and> list_all is_digit (take 2 (drop 14 v))
            \<and> 1970 \<le> year \<and> 1 \<le> month \<and> month \<le> 12 \<and> 1 \<le> day \<and> day \<le> daysIn month year
            \<and> hour < 24 \<and> minute < 60
         then Inr (Date year month day hour minute)
         else Parse_rest lib layout v)"


section \<open>\<open>cmd/revoke/user/cmd.go\<close>\<close>

definition validRoles :: "string list" where
  "validRoles = [''cluster-admins'', ''dedicated-admins'']"

definition validRolesAliases :: "string list" where
  "validRolesAliases = [''cluster-admin'', ''dedicated-admin'']"

text \<open>
  What the revoke command reads from outside: its flags and positional arguments, the
  helpers of the repository's other packages, and the answers of the AWS and OCM
  services.
\<close>

record revoke_env =
  rv_CreateReporterOrExit :: "int option"
  rv_CreateLoggerOrExit :: "int option"
  rv_clusterKey :: string
  rv_username :: string
  rv_argv :: "string list"
  rv_IsValidClusterKey :: "string \<Rightarrow> bool"
  rv_IsValidUsername :: "string \<Rightarrow> bool"
  rv_aws_NewClient :: "error option"
  rv_GetCreator :: "error + string"
  rv_NewConnection :: "error option"
  rv_Close :: "error option"
  rv_GetCluster :: "string \<Rightarrow> string \<Rightarrow> error + string"
      \<comment> \<open>key and creator ARN to the cluster's id\<close>
  rv_Confirm :: "string \<Rightarrow> arg list \<Rightarrow> bool"
  rv_Delete_Send :: "string \<Rightarrow> string \<Rightarrow> string \<Rightarrow> (error \<times> string) option"
      \<comment> \<open>the error and the response's \<open>Error().Reason()\<close>\<close>

text \<open>
  \<^verbatim>\<open>
  role := argv[0]
  for _, validAlias := range validRolesAliases {
      if role == validAlias { role = fmt.Sprintf("%ss", role) }
  }
  \<close>
\<close>

definition canonical_role :: "string \<Rightarrow> string" where
  "canonical_role role0 =
     foldl (\<lambda>role validAlias. if role = validAlias then role @ ''s'' else role)
       role0 validRolesAliases"

text \<open>
  \<^verbatim>\<open>
  isRoleValid := false
  for _, validRole := range validRoles {
      if role == validRole { isRoleValid = true }
  }
  \<close>
\<close>

definition isRoleValid :: "string \<Rightarrow> bool" where
  "isRoleValid role =
     foldl (\<lambda>valid validRole. if role = validRole then True else valid) False validRoles"

text \<open>Lines 76 to 106: the reporter and the logger, the flags and the number of arguments.\<close>

definition revoke_args :: "revoke_env \<Rightarrow> string step" where
  "revoke_args env =
     bind (create_reporter (rv_CreateReporterOrExit env) (rv_CreateLoggerOrExit env)) (\<lambda>_.
      if \<not> rv_IsValidClusterKey env (rv_clusterKey env)
      then fatal (''Cluster name, identifier or external identifier `%s` isn`t valid: it '' @
               ''must contain only letters, digits, dashes and underscores'')
             [S (rv_clusterKey env)]
      else if \<not> rv_IsValidUsername env (rv_username env)
      then fatal (''username `%s` isn`t valid: it must contain only letters, digits, dashes '' @
                  ''and underscores'')
             [S (rv_username env)]
      else
        (case rv_argv env of
           [role] \<Rightarrow> ([], Inr role)
         | _ \<Rightarrow> fatal (''Expected exactly one command line argument or flag containing the name '' @
                       ''of the group or role to grant the user.'') []))"

text \<open>Lines 107 to 123: the role is canonicalised and checked; the check only reports.\<close>

definition check_role :: "string \<Rightarrow> string step" where
  "check_role role0 =
     (let role = canonical_role role0
      in if \<not> isRoleValid role
         then ([Errorf ''Expected at least one of %s'' [L validRoles]], Inr role)
         else ([], Inr role))"

text \<open>Lines 125 to 147: the AWS client, its creator and the OCM connection.\<close>

definition revoke_clients :: "revoke_env \<Rightarrow> string step" where
  "revoke_clients env =
     (case rv_aws_NewClient env of
        Some err \<Rightarrow> fatal ''Failed to create AWS client: %v'' [E err]
      | None \<Rightarrow>
          (case rv_GetCreator env of
             Inl err \<Rightarrow> fatal ''Failed to get AWS creator: %v'' [E err]
           | Inr arn \<Rightarrow>
               (case rv_NewConnection env of
                  Some err \<Rightarrow> fatal ''Failed to create OCM connection: %v'' [E err]
                | None \<Rightarrow> ([OpenConnection], Inr arn))))"

text \<open>Lines 155 to 177: what runs under the deferred close.\<close>

definition revoke_connected :: "revoke_env \<Rightarrow> string \<Rightarrow> string \<Rightarrow> unit step" where
  "revoke_connected env role arn =
     emit (Debugf ''Loading cluster `%s`'' [S (rv_clusterKey env)])
       (case rv_GetCluster env (rv_clusterKey env) arn of
          Inl err \<Rightarrow> fatal ''Failed to get cluster `%s`: %v'' [S (rv_clusterKey env), E err]
        | Inr cluster_id \<Rightarrow>
            if \<not> rv_Confirm env ''revoke role %s from user %s in cluster %s''
                  [S role, S (rv_username env), S (rv_clusterKey env)]
            then ([], Inl (Exit 0))
            else
              emit (Debugf ''Removing user `%s` from group `%s` in cluster `%s`''
                      [S (rv_username env), S role, S (rv_clusterKey env)])
                (emit (DeleteUser cluster_id role (rv_username env))
                  (case rv_Delete_Send env cluster_id role (rv_username env) of
                     None \<Rightarrow> ([], Inr ())
                   | Some (err, reason) \<Rightarrow>
                       emit (Debugf err [])
                         (fatal ''Failed to revoke `%s` from user `%s` in cluster `%s`: %s''
                            [S role, S (rv_username env), S (rv_clusterKey env), S reason]))))"

text \<open>
  The whole of \<open>run\<close>. Everything up to the built connection runs with no deferred
  function; the rest runs under the deferred close.
\<close>

definition revoke_run :: "revoke_env \<Rightarrow> event list \<times> outcome" where
  "revoke_run env =
     (let pre = bind (revoke_args env) (\<lambda>role0.
                  bind (check_role role0) (\<lambda>role.
                    bind (revoke_clients env) (\<lambda>arn. ([], Inr (role, arn)))))
      in case snd pre of
           Inl a \<Rightarrow> finish (fst pre, Inl a)
         | Inr (role, arn) \<Rightarrow>
             (case with_deferred_close (rv_Close env) (revoke_connected env role arn) of
                (es, out) \<Rightarrow> (fst pre @ es, out)))"

text \<open>A run of the revoke command in which every helper and every service call succeeds.\<close>

definition revoke_env_ok :: "string \<Rightarrow> revoke_env" where
  "revoke_env_ok role =
     \<lparr> rv_CreateReporterOrExit = None, rv_CreateLoggerOrExit = None,
       rv_clusterKey = ''mycluster'', rv_username = ''myusername'', rv_argv = [role],
       rv_IsValidClusterKey = (\<lambda>_. True), rv_IsValidUsername = (\<lambda>_. True),
       rv_aws_NewClient = None, rv_GetCreator = Inr ''arn'', rv_NewConnection = None,
       rv_Close = None, rv_GetCluster = (\<lambda>_ _. Inr ''id1''),
       rv_Confirm = (\<lambda>_ _. True), rv_Delete_Send = (\<lambda>_ _ _. None) \<rparr>"


section \<open>The upgrade command (\<open>upgrade cluster\<close>)\<close>

text \<open>The parts of the SDK's \<open>Cluster\<close> and \<open>Value\<close> objects that \<open>run\<close> reads.\<close>

record cmv1_Value =
  Value :: float64
  Unit :: string

record Cluster =
  ID :: string
  State :: string
  NodeDrainGracePeriod :: "cmv1_Value option"
      \<comment> \<open>\<open>None\<close> when \<open>GetValue\<close> answers \<open>ok = false\<close>\<close>

definition ClusterStateReady :: string where
  "ClusterStateReady = ''ready''"

text \<open>\<open>interactive.Input\<close>, the argument of a prompt.\<close>

record Input =
  Question :: string
  Help :: string
  Options :: "string list"
  Default :: string
  Required :: bool

text \<open>
  What the upgrade command reads from outside: the flags (\<open>args\<close>, and whether the grace
  period flag was passed), the interactive switch, the helpers of the repository's other
  packages, the builders and requests of the SDK, the clock and the library.
\<close>

record upgrade_env =
  CreateReporterOrExit :: "int option"
  CreateLoggerOrExit :: "int option"
  args_clusterKey :: string
  args_version :: string
  args_scheduleDate :: string
  args_scheduleTime :: string
  args_nodeDrainGracePeriod :: string
  Changed_nodeDrainGracePeriod :: bool
  interactive_Enabled :: bool
  IsValidClusterKey :: "string \<Rightarrow> bool"
  aws_NewClient :: "error option"
  GetCreator :: "error + string"
  NewConnection :: "error option"
  Close :: "error option"
  GetCluster :: "string \<Rightarrow> string \<Rightarrow> error + Cluster"
  GetScheduledUpgrade :: "string \<Rightarrow> error + UpgradePolicy option"
  GetVersionID :: "Cluster \<Rightarrow> string"
  GetAvailableUpgrades :: "string \<Rightarrow> error + string list"
  GetOption :: "Input \<Rightarrow> error + string"
  GetString :: "Input \<Rightarrow> error + string"
  Now :: Time
      \<comment> \<open>\<open>time.Now().UTC()\<close>\<close>
  Cluster_Build :: "error option"
  UpgradePolicy_Build :: "error option"
  Add_Send :: "string \<Rightarrow> UpgradePolicy \<Rightarrow> error option"
  Update_Send :: "string \<Rightarrow> float64 \<Rightarrow> error option"
  lib :: go_lib

definition version_Usage :: string where
  "version_Usage = ''Version of OpenShift that the cluster will be upgraded to''"

definition nodeDrain_Usage :: string where
  "nodeDrain_Usage =
     ''You may set a grace period for how long Pod Disruption Budget-protected workloads will be '' @
     ''respected during upgrades.'' @ [CHR 0x0A] @
     ''After this grace period, any workloads protected by Pod Disruption '' @
     ''Budgets that have not been successfully drained from a node will be forcibly evicted''"

definition nodeDrainOptions :: "string list" where
  "nodeDrainOptions =
     [''15 minutes'', ''30 minutes'', ''45 minutes'', ''1 hour'', ''2 hours'', ''4 hours'',
      ''8 hours'']"

definition Minute :: int where
  \<comment> \<open>\<open>time.Minute\<close>, in nanoseconds\<close>
  "Minute = 60000000000"

text \<open>
  Lines 104 to 142: the reporter and the logger, the cluster key, the AWS client and
  creator, the OCM connection.
\<close>

definition upgrade_clients :: "upgrade_env \<Rightarrow> string step" where
  "upgrade_clients env =
     bind (create_reporter (CreateReporterOrExit env) (CreateLoggerOrExit env)) (\<lambda>_.
      if \<not> IsValidClusterKey env (args_clusterKey env)
      then fatal (''Cluster name, identifier or external identifier `%s` isn`t valid: it '' @
                  ''must contain only letters, digits, dashes and underscores'')
             [S (args_clusterKey env)]
      else
        (case aws_NewClient env of
           Some err \<Rightarrow> fatal ''Failed to create AWS client: %v'' [E err]
         | None \<Rightarrow>
             (case GetCreator env of
                Inl err \<Rightarrow> fatal ''Failed to get AWS creator: %v'' [E err]
              | Inr arn \<Rightarrow>
                  (case NewConnection env of
                     Some err \<Rightarrow> fatal ''Failed to create OCM connection: %v'' [E err]
                   | None \<Rightarrow> ([OpenConnection], Inr arn)))))"

text \<open>Lines 153 to 164: the cluster is loaded and must be ready.\<close>

definition load_cluster :: "upgrade_env \<Rightarrow> string \<Rightarrow> Cluster step" where
  "load_cluster env arn =
     emit (Debugf ''Loading cluster `%s`'' [S (args_clusterKey env)])
       (case GetCluster env (args_clusterKey env) arn of
          Inl err \<Rightarrow> fatal ''Failed to get cluster `%s`: %v'' [S (args_clusterKey env), E err]
        | Inr cluster \<Rightarrow>
            if State cluster \<noteq> ClusterStateReady
            then fatal ''Cluster `%s` is not yet ready'' [S (args_clusterKey env)]
            else ([], Inr cluster))"

text \<open>Lines 166 to 177: an upgrade that is already scheduled ends the command.\<close>

definition check_scheduled :: "upgrade_env \<Rightarrow> Cluster \<Rightarrow> unit step" where
  "check_scheduled env cluster =
     (case GetScheduledUpgrade env (ID cluster) of
        Inl err \<Rightarrow>
          fatal ''Failed to get scheduled upgrades for cluster `%s`: %v''
            [S (args_clusterKey env), E err]
      | Inr None \<Rightarrow> ([], Inr ())
      | Inr (Some scheduledUpgrade) \<Rightarrow>
          ([Warnf ''There is already a scheduled upgrade to version %s on %s''
              [S (Version scheduledUpgrade),
               S (Format (lib env) (NextRun scheduledUpgrade) ''2006-01-02 15:04 MST'')]],
           Inl (Exit 0)))"

text \<open>
  Lines 210 to 217:
  \<^verbatim>\<open>
  validVersion := false
  for _, v := range availableUpgrades {
      if v == version { validVersion = true; break }
  }
  \<close>
\<close>

fun validVersion :: "string list \<Rightarrow> string \<Rightarrow> bool" where
  "validVersion [] version = False"
| "validVersion (v # vs) version = (if v = version then True else validVersion vs version)"

text \<open>Lines 179 to 221: the version to upgrade to.\<close>

definition resolve_version :: "upgrade_env \<Rightarrow> Cluster \<Rightarrow> string step" where
  "resolve_version env cluster =
     (case GetAvailableUpgrades env (GetVersionID env cluster) of
        Inl err \<Rightarrow> fatal ''Failed to find available upgrades: %v'' [E err]
      | Inr availableUpgrades \<Rightarrow>
          (case availableUpgrades of
             [] \<Rightarrow> ([Warnf ''There are no available upgrades'' []], Inl (Exit 0))
           | first # _ \<Rightarrow>
               bind
                 (if args_version env = '''' \<or> interactive_Enabled env
                  then
                    (case GetOption env
                            \<lparr> Question = ''Version'', Help = version_Usage,
                              Options = availableUpgrades,
                              Default = (if args_version env = '''' then first
                                         else args_version env),
                              Required = True \<rparr> of
                       Inl err \<Rightarrow> fatal ''Expected a valid version to upgrade to: %s'' [E err]
                     | Inr version \<Rightarrow> ([], Inr version))
                  else ([], Inr (args_version env)))
                 (\<lambda>version.
                    if \<not> validVersion availableUpgrades version
                    then fatal ''Expected a valid version to upgrade to'' []
                    else ([], Inr version))))"

text \<open>Lines 232 to 270: the date and the time are asked for in interactive mode.\<close>

definition prompt_schedule :: "upgrade_env \<Rightarrow> Time \<Rightarrow> string \<Rightarrow> string \<Rightarrow> (string \<times> string) step" where
  "prompt_schedule env now scheduleDate0 scheduleTime0 =
     (let scheduleParsed =
            (case Parse (lib env) ''2006-01-02 15:04'' (scheduleDate0 @ '' '' @ scheduleTime0) of
               Inl err \<Rightarrow> now
             | Inr t \<Rightarrow> t)
      in case GetString env
                \<lparr> Question = ''Please input desired date in format yyyy-mm-dd'', Help = '''',
                  Options = [], Default = Format (lib env) scheduleParsed ''2006-01-02'',
                  Required = True \<rparr> of
           Inl err \<Rightarrow> fatal ''Expected a valid date: %s'' [E err]
         | Inr scheduleDate \<Rightarrow>
             (case Parse (lib env) ''2006-01-02'' scheduleDate of
                Inl err \<Rightarrow> fatal ''Date format `%s` invalid'' [S scheduleDate]
              | Inr _ \<Rightarrow>
                  (case GetString env
                          \<lparr> Question = ''Please input desired UTC time in format HH:mm'',
                            Help = '''', Options = [],
                            Default = Format (lib env) scheduleParsed ''15:04'',
                            Required = True \<rparr> of
                     Inl err \<Rightarrow> fatal ''Expected a valid time: %s'' [E err]
                   | Inr scheduleTime \<Rightarrow>
                       (case Parse (lib env) ''15:04'' scheduleTime of
                          Inl err \<Rightarrow> fatal ''Time format `%s` invalid'' [S scheduleTime]
                        | Inr _ \<Rightarrow> ([], Inr (scheduleDate, scheduleTime))))))"

text \<open>Lines 272 to 277: the date and the time are put together and parsed.\<close>

fun parse_nextRun :: "go_lib \<Rightarrow> string \<times> string \<Rightarrow> Time step" where
  "parse_nextRun l (scheduleDate, scheduleTime) =
     (case Parse l ''2006-01-02 15:04'' (scheduleDate @ '' '' @ scheduleTime) of
        Inl err \<Rightarrow> fatal ''Time format invalid: %s'' [E err]
      | Inr nextRun \<Rightarrow> ([], Inr nextRun))"

text \<open>Lines 223 to 277: the time of the next run.\<close>

definition resolve_schedule :: "upgrade_env \<Rightarrow> Time step" where
  "resolve_schedule env =
     (let now = Now env + Minute * 10;
          scheduleDate = (if args_scheduleDate env = '''' then Format (lib env) now ''2006-01-02''
                          else args_scheduleDate env);
          scheduleTime = (if args_scheduleTime env = '''' then Format (lib env) now ''15:04''
                          else args_scheduleTime env)
      in bind
           (if interactive_Enabled env then prompt_schedule env now scheduleDate scheduleTime
            else ([], Inr (scheduleDate, scheduleTime)))
           (parse_nextRun (lib env)))"

text \<open>
  Lines 284 to 304: the grace period of the cluster, rendered as a string, unless it is
  not set or the flag was passed.
\<close>

definition default_nodeDrain :: "upgrade_env \<Rightarrow> Cluster \<Rightarrow> string" where
  "default_nodeDrain env cluster =
     (let nodeDrainGracePeriod =
            (case NodeDrainGracePeriod cluster of
               None \<Rightarrow> ''''
             | Some nd \<Rightarrow>
                 (let val = int_of_float64 (lib env) (Value nd)
                  in if val \<ge> 60
                     then Sprintf_d_s (val div 60) (if val div 60 = 1 then ''hour'' else ''hours'')
                     else Sprintf_d_s val (Unit nd)))
      in if nodeDrainGracePeriod = '''' \<or> Changed_nodeDrainGracePeriod env
         then args_nodeDrainGracePeriod env
         else nodeDrainGracePeriod)"

text \<open>Lines 305 to 326: the grace period is asked for in interactive mode.\<close>

definition prompt_nodeDrain :: "upgrade_env \<Rightarrow> string \<Rightarrow> string step" where
  "prompt_nodeDrain env nodeDrainGracePeriod =
     (if interactive_Enabled env
      then
        (case GetOption env
                \<lparr> Question = ''Node draining'', Help = nodeDrain_Usage,
                  Options = nodeDrainOptions, Default = nodeDrainGracePeriod,
                  Required = True \<rparr> of
           Inl err \<Rightarrow> fatal ''Expected a valid node drain grace period: %s'' [E err]
         | Inr answer \<Rightarrow> ([], Inr answer))
      else ([], Inr nodeDrainGracePeriod))"

text \<open>
  Lines 327 to 335: the string is split at its spaces, the first part is parsed as a
  number and the second part is read as the unit. Reading a part that is not there is an
  index out of range, a run-time panic.
  \<^verbatim>\<open>
  nodeDrainParsed := strings.Split(nodeDrainGracePeriod, " ")
  nodeDrainValue, err := strconv.ParseFloat(nodeDrainParsed[0], 64)
  if err != nil { reporter.Errorf(...); os.Exit(1) }
  if nodeDrainParsed[1] == "hours" || nodeDrainParsed[1] == "hour" {
      nodeDrainValue = nodeDrainValue * 60
  }
  \<close>
\<close>

definition parse_nodeDrain :: "go_lib \<Rightarrow> string \<Rightarrow> float64 step" where
  "parse_nodeDrain l nodeDrainGracePeriod =
     (case Split nodeDrainGracePeriod CHR '' '' of
        [] \<Rightarrow> ([], Inl (Panic ''index out of range [0] with length 0''))
      | number # rest \<Rightarrow>
          (case ParseFloat l number of
             Inl err \<Rightarrow> fatal ''Expected a valid node drain grace period: %s'' [E err]
           | Inr nodeDrainValue \<Rightarrow>
               (case rest of
                  [] \<Rightarrow> ([], Inl (Panic ''index out of range [1] with length 1''))
                | unit # _ \<Rightarrow>
                    ([], Inr (if unit = ''hours'' \<or> unit = ''hour''
                              then mul60 l nodeDrainValue
                              else nodeDrainValue)))))"

text \<open>Lines 284 to 335 together.\<close>

definition resolve_nodeDrain :: "upgrade_env \<Rightarrow> Cluster \<Rightarrow> float64 step" where
  "resolve_nodeDrain env cluster =
     bind (prompt_nodeDrain env (default_nodeDrain env cluster)) (parse_nodeDrain (lib env))"

text \<open>
  Lines 337 to 374: the cluster body and the policy are built, the policy is sent, then
  the cluster update.
\<close>

definition submit :: "upgrade_env \<Rightarrow> Cluster \<Rightarrow> UpgradePolicy \<Rightarrow> float64 \<Rightarrow> unit step" where
  "submit env cluster upgradePolicy nodeDrainValue =
     (case Cluster_Build env of
        Some err \<Rightarrow> fatal ''Failed to update cluster `%s`: %v'' [S (args_clusterKey env), E err]
      | None \<Rightarrow>
          (case UpgradePolicy_Build env of
             Some err \<Rightarrow>
               fatal ''Failed to schedule upgrade for cluster `%s`: %v''
                 [S (args_clusterKey env), E err]
           | None \<Rightarrow>
               emit (AddUpgradePolicy (ID cluster) upgradePolicy)
                 (case Add_Send env (ID cluster) upgradePolicy of
                    Some err \<Rightarrow>
                      fatal ''Failed to schedule upgrade for cluster `%s`: %v''
                        [S (args_clusterKey env), E err]
                  | None \<Rightarrow>
                      emit (UpdateCluster (ID cluster) nodeDrainValue)
                        (case Update_Send env (ID cluster) nodeDrainValue of
                           Some err \<Rightarrow>
                             fatal ''Failed to update cluster `%s`: %v''
                               [S (args_clusterKey env), E err]
                         | None \<Rightarrow>
                             ([Infof ''Upgrade successfully scheduled for cluster `%s`''
                                 [S (args_clusterKey env)]],
                              Inr ())))))"

text \<open>Lines 150 to 375: what runs under the deferred close.\<close>

definition upgrade_connected :: "upgrade_env \<Rightarrow> string \<Rightarrow> unit step" where
  "upgrade_connected env arn =
     bind (load_cluster env arn) (\<lambda>cluster.
       bind (check_scheduled env cluster) (\<lambda>_.
         bind (resolve_version env cluster) (\<lambda>version.
           bind (resolve_schedule env) (\<lambda>nextRun.
             bind (resolve_nodeDrain env cluster) (\<lambda>nodeDrainValue.
               submit env cluster
                 \<lparr> ScheduleType = ''manual'', Version = version, NextRun = nextRun \<rparr>
                 nodeDrainValue)))))"

text \<open>The whole of \<open>run\<close>.\<close>

definition upgrade_run :: "upgrade_env \<Rightarrow> event list \<times> outcome" where
  "upgrade_run env =
     (let pre = upgrade_clients env
      in case snd pre of
           Inl a \<Rightarrow> finish (fst pre, Inl a)
         | Inr arn \<Rightarrow>
             (case with_deferred_close (Close env) (upgrade_connected env arn) of
                (es, out) \<Rightarrow> (fst pre @ es, out)))"


section \<open>Concrete runs\<close>

text \<open>A library that rejects everything outside the part modelled exactly.\<close>

definition lib0 :: go_lib where
  "lib0 = \<lparr> ParseFloat_rest = (\<lambda>_. Inl ''invalid syntax''), round64 = (\<lambda>_. NaN),
            int_rest = (\<lambda>_. 0), Format_rest = (\<lambda>_ _. ''2020-11-02 00:00 UTC''),
            Parse_rest = (\<lambda>_ _. Inl ''cannot parse'') \<rparr>"

definition cluster_ok :: Cluster where
  "cluster_ok = \<lparr> ID = ''id1'', State = ''ready'', NodeDrainGracePeriod = None \<rparr>"

text \<open>
  The scenario of the specification: the cluster \<open>mycluster\<close> is ready and has no upgrade
  scheduled, the upgrades \<open>4.5.20\<close> and \<open>4.5.21\<close> are available, the caller passes
  \<open>--version 4.5.20\<close> and nothing else, and every request succeeds. The clock stands at
  2020-10-31 00:25:17.000000123 UTC.
\<close>

definition upgrade_env_ok :: upgrade_env where
  "upgrade_env_ok =
     \<lparr> CreateReporterOrExit = None, CreateLoggerOrExit = None,
       args_clusterKey = ''mycluster'', args_version = ''4.5.20'', args_scheduleDate = '''',
       args_scheduleTime = '''', args_nodeDrainGracePeriod = ''1 hour'',
       Changed_nodeDrainGracePeriod = False, interactive_Enabled = False,
       IsValidClusterKey = (\<lambda>_. True), aws_NewClient = None, GetCreator = Inr ''arn'',
       NewConnection = None, Close = None,
       GetCluster = (\<lambda>_ _. Inr cluster_ok),
       GetScheduledUpgrade = (\<lambda>_. Inr None), GetVersionID = (\<lambda>_. ''openshift-v4.5.19''),
       GetAvailableUpgrades = (\<lambda>_. Inr [''4.5.20'', ''4.5.21'']),
       GetOption = (\<lambda>i. Inr (Default i)), GetString = (\<lambda>i. Inr (Default i)),
       Now = 1604103917000000123, Cluster_Build = None, UpgradePolicy_Build = None,
       Add_Send = (\<lambda>_ _. None), Update_Send = (\<lambda>_ _. None), lib = lib0 \<rparr>"


text \<open>
  The same scenario in interactive mode, with a version passed that is not available:
  the operator takes the first option of every choice and accepts the date and the time
  proposed. The library accepts the date and the time on their own.
\<close>

definition lib_lenient :: go_lib where
  "lib_lenient = lib0 \<lparr> Parse_rest := (\<lambda>_ _. Inr 0) \<rparr>"

definition upgrade_env_interactive :: upgrade_env where
  "upgrade_env_interactive =
     upgrade_env_ok
       \<lparr> args_version := ''4.5.99'', interactive_Enabled := True,
         GetOption := (\<lambda>i. Inr (hd (Options i))), lib := lib_lenient \<rparr>"


section \<open>The revoke command: results\<close>

lemma canonical_role_admin: "canonical_role ''admin'' = ''admin''"
  by (simp add: canonical_role_def validRolesAliases_def)

lemma isRoleValid_admin: "\<not> isRoleValid ''admin''"
  by (simp add: isRoleValid_def validRoles_def)

text \<open>
  C1. The claim: a role that is, after the aliases, neither \<open>cluster-admins\<close> nor
  \<open>dedicated-admins\<close> makes the revoke command fail with a fatal error, and no membership
  is deleted. The code reports the error and goes on (line 122 has no \<open>os.Exit(1)\<close>): for
  the role \<open>admin\<close>, with every other step succeeding, the delete request is sent for the
  group \<open>admin\<close> and \<open>run\<close> returns normally.
\<close>

theorem revoke_unknown_role_deletes:
  "revoke_run (revoke_env_ok ''admin'') =
     ([Errorf ''Expected at least one of %s'' [L [''cluster-admins'', ''dedicated-admins'']],
       OpenConnection,
       Debugf ''Loading cluster `%s`'' [S ''mycluster''],
       Debugf ''Removing user `%s` from group `%s` in cluster `%s`'' [S ''myusername'', S ''admin'', S ''mycluster''],
       DeleteUser ''id1'' ''admin'' ''myusername'',
       CloseConnection],
      Returned)"
  by (simp add: revoke_run_def revoke_env_ok_def revoke_args_def create_reporter_def check_role_def
      canonical_role_admin isRoleValid_admin revoke_clients_def revoke_connected_def
      bind_def emit_def fatal_def with_deferred_close_def deferred_close_def validRoles_def)

section \<open>The library functions: results\<close>

declare year_of_days.simps [simp del] month_of_days.simps [simp del] decimal.simps [simp del]

lemma div_step:
  assumes "0 < (k::int)"
  shows "y div k - (y - 1) div k = (if y mod k = 0 then 1 else 0)"
proof (cases "y mod k = 0")
  case True
  have "y - 1 = k * (y div k - 1) + (k - 1)"
    using True by (simp add: algebra_simps) (metis mult.commute mult_div_mod_eq add.right_neutral)
  then have "(y - 1) div k = y div k - 1"
    using assms by (intro int_div_pos_eq[where r = "k - 1"]) auto
  with True show ?thesis by simp
next
  case False
  have r: "0 < y mod k" using False assms
    by (simp add: less_le)
  have "y - 1 = k * (y div k) + (y mod k - 1)" by simp
  then have "(y - 1) div k = y div k"
    using assms r pos_mod_bound[OF assms, of y] by (intro int_div_pos_eq[where r = "y mod k - 1"]) auto
  with False show ?thesis by simp
qed

lemma year_step_arith:
  fixes a b c a' b' c' y :: int
  assumes "a' - a = (if p4 then 1 else 0)" "b' - b = (if p100 then 1 else 0)"
    "c' - c = (if p400 then 1 else 0)" "p400 \<Longrightarrow> p100" "p100 \<Longrightarrow> p4"
  shows "365 * (y + 1 - 1970) + (a' - b' + c') - 477 =
         365 * (y - 1970) + (a - b + c) - 477
           + (if p4 \<and> (if p100 then p400 else True) then 366 else 365)"
  using assms by (auto split: if_splits)

lemma days_before_year_step: "days_before_year (y + 1) = days_before_year y + daysInYear y"
proof -
  have a: "y mod 400 = 0 \<Longrightarrow> y mod 100 = 0"
    using mod_mod_cancel[of 100 400 y] by simp
  have b: "y mod 100 = 0 \<Longrightarrow> y mod 4 = 0"
    using mod_mod_cancel[of 4 100 y] by simp
  show ?thesis
    unfolding days_before_year_def daysInYear_def isLeap_def add_diff_cancel_right'
    by (rule year_step_arith[OF div_step div_step div_step a b]) simp_all
qed

lemma daysInYear_pos: "365 \<le> daysInYear y"
  by (simp add: daysInYear_def)

lemma year_of_days_correct:
  "year_of_days y0 n = (y, r) \<Longrightarrow> 0 \<le> n \<Longrightarrow>
   y0 \<le> y \<and> 0 \<le> r \<and> r < daysInYear y \<and> days_before_year y0 + n = days_before_year y + r"
proof (induction y0 n rule: year_of_days.induct)
  case (1 year n)
  show ?case
  proof (cases "n < daysInYear year")
    case True
    with 1 show ?thesis by (simp add: year_of_days.simps[of year n])
  next
    case False
    then have eq: "year_of_days (year + 1) (n - daysInYear year) = (y, r)"
      using 1(2) by (simp add: year_of_days.simps[of year n])
    have "0 \<le> n - daysInYear year" using False by simp
    from 1(1)[OF False eq this] show ?thesis
      by (simp add: days_before_year_step)
  qed
qed

lemma daysIn_pos: "28 \<le> daysIn m y" "daysIn m y \<le> 31"
  by (simp_all add: daysIn_def)

lemma days_before_month_step:
  "1 \<le> m \<Longrightarrow> days_before_month y (m + 1) = days_before_month y m + daysIn m y"
  by (simp add: days_before_month_def upto_rec2)

lemma month_of_days_correct:
  "month_of_days year m0 n = (m, d) \<Longrightarrow> 1 \<le> m0 \<Longrightarrow> m0 \<le> 12 \<Longrightarrow> 0 \<le> n \<Longrightarrow>
   m0 \<le> m \<and> m \<le> 12 \<and> 0 \<le> d \<and> (d < daysIn m year \<or> m = 12)
   \<and> days_before_month year m0 + n = days_before_month year m + d"
proof (induction year m0 n rule: month_of_days.induct)
  case (1 year month n)
  show ?case
  proof (cases "12 \<le> month \<or> n < daysIn month year")
    case True
    with 1(2-) show ?thesis by (auto simp add: month_of_days.simps[of year month n])
  next
    case False
    then have eq: "month_of_days year (month + 1) (n - daysIn month year) = (m, d)"
      using 1(2) by (simp add: month_of_days.simps[of year month n])
    have b: "1 \<le> month + 1" "month + 1 \<le> 12" "0 \<le> n - daysIn month year"
      using 1(3) False by auto
    from 1(1)[OF False eq b] show ?thesis using 1(3)
      by (simp add: days_before_month_step)
  qed
qed

lemma days_before_month_12: "days_before_month y 12 + 31 = daysInYear y"
  by (simp add: days_before_month_def daysIn_def daysInYear_def upto.simps[of 1 11])

lemma days_before_month_1: "days_before_month y 1 = 0"
  by (simp add: days_before_month_def)

lemma month_of_days_year:
  assumes "month_of_days year 1 n = (m, d)" "0 \<le> n" "n < daysInYear year"
  shows "1 \<le> m \<and> m \<le> 12 \<and> 0 \<le> d \<and> d < daysIn m year
         \<and> n = days_before_month year m + d"
proof -
  from month_of_days_correct[OF assms(1) _ _ assms(2)]
  have h: "1 \<le> m" "m \<le> 12" "0 \<le> d" "d < daysIn m year \<or> m = 12"
          "n = days_before_month year m + d"
    by (simp_all add: days_before_month_1)
  have "d < daysIn m year"
  proof (cases "m = 12")
    case True
    then show ?thesis using h(5) assms(3) days_before_month_12[of year]
      by (simp add: daysIn_def)
  next
    case False
    with h(4) show ?thesis by simp
  qed
  with h show ?thesis by simp
qed

lemma digit_table:
  "\<forall>n \<in> {0..9}. digit_val (digit_char n) = n \<and> is_digit (digit_char n)"
  unfolding set_upto[symmetric]
  by (simp add: upto.simps[of 0 9] upto.simps[of 1 9] digit_char_def digit_val_def is_digit_def)

lemma digit_val_char: "0 \<le> n \<Longrightarrow> n < 10 \<Longrightarrow> digit_val (digit_char n) = n"
  using digit_table by simp

lemma is_digit_char: "0 \<le> n \<Longrightarrow> n < 10 \<Longrightarrow> is_digit (digit_char n)"
  using digit_table by simp

lemma mod10_digit: "0 \<le> (n::int) mod 10" "(n::int) mod 10 < 10"
  by simp_all

lemma dec_val_pad2:
  assumes "0 \<le> n" "n < 100"
  shows "dec_val (pad2 n) = n" "list_all is_digit (pad2 n)"
proof -
  have b: "n div 10 < 10" "0 \<le> n div 10" using assms by simp_all
  then have d: "n div 10 mod 10 = n div 10" by simp
  show "dec_val (pad2 n) = n"
    by (simp add: dec_val_def pad2_def digit_val_char mod10_digit d b)
  show "list_all is_digit (pad2 n)"
    by (simp add: pad2_def is_digit_char mod10_digit)
qed

lemma dec_val_pad4:
  assumes "0 \<le> n" "n < 10000"
  shows "dec_val (pad4 n) = n" "list_all is_digit (pad4 n)"
proof -
  have b: "n div 1000 < 10" "0 \<le> n div 1000" using assms by simp_all
  then have d: "n div 1000 mod 10 = n div 1000" by simp
  have e: "n div 10 = 10 * (n div 100) + n div 10 mod 10"
    using div_mult_mod_eq[of "n div 10" 10] by (simp add: zdiv_zmult2_eq[symmetric])
  have f: "n div 100 = 10 * (n div 1000) + n div 100 mod 10"
    using div_mult_mod_eq[of "n div 100" 10] by (simp add: zdiv_zmult2_eq[symmetric])
  have g: "n = 10 * (n div 10) + n mod 10" by simp
  have "dec_val (pad4 n) =
        10 * (10 * (10 * (n div 1000) + n div 100 mod 10) + n div 10 mod 10) + n mod 10"
    by (simp add: dec_val_def pad4_def digit_val_char mod10_digit d b)
  also have "\<dots> = n" using e f g by simp
  finally show "dec_val (pad4 n) = n" .
  show "list_all is_digit (pad4 n)"
    by (simp add: pad4_def is_digit_char mod10_digit)
qed

lemma days_before_year_mono: "y \<le> y' \<Longrightarrow> days_before_year y \<le> days_before_year y'"
proof (induction y' rule: int_ge_induct)
  case base
  show ?case by simp
next
  case (step i)
  then show ?case using daysInYear_pos[of i] by (simp add: days_before_year_step)
qed

lemma time_split:
  fixes s :: int
  shows "(s div 86400) * 86400 + (s mod 86400 div 3600) * 3600 + (s mod 3600 div 60) * 60
         = s - s mod 60"
proof -
  define q1 r1 q2 r2 q3 r3 where
    "q1 = s div 86400" and "r1 = s mod 86400" and "q2 = r1 div 3600" and "r2 = s mod 3600"
    and "q3 = r2 div 60" and "r3 = s mod 60"
  have "r1 mod 3600 = r2" unfolding r1_def r2_def by (rule mod_mod_cancel) simp
  then have b: "r1 = q2 * 3600 + r2" unfolding q2_def using div_mult_mod_eq[of r1 3600] by simp
  have "r2 mod 60 = r3" unfolding r2_def r3_def by (rule mod_mod_cancel) simp
  then have c: "r2 = q3 * 60 + r3" unfolding q3_def using div_mult_mod_eq[of r2 60] by simp
  have a: "s = q1 * 86400 + r1" unfolding q1_def r1_def by simp
  have "q1 * 86400 + q2 * 3600 + q3 * 60 = s - r3" using a b c by simp
  then show ?thesis unfolding q1_def r1_def q2_def r2_def q3_def r3_def .
qed

lemma ns_split:
  fixes t :: int
  shows "(t div 1000000000 - t div 1000000000 mod 60) * 1000000000 = t - t mod 60000000000"
proof -
  define q r m where "q = t div 1000000000" and "r = t mod 1000000000" and "m = q mod 60"
  have "t mod (1000000000 * 60) = 1000000000 * (t div 1000000000 mod 60) + t mod 1000000000"
    by (rule zmod_zmult2_eq) simp
  then have a: "t mod 60000000000 = 1000000000 * m + r" by (simp add: q_def r_def m_def)
  have b: "t = q * 1000000000 + r" unfolding q_def r_def by simp
  have "(q - m) * 1000000000 = t - (1000000000 * m + r)" using b by (simp add: algebra_simps)
  then show ?thesis unfolding a[symmetric] unfolding q_def m_def .
qed

lemma civil_fields:
  assumes ex: "Format_exact t" and c: "civil t = (year, month, day, hour, minute)"
  shows "1970 \<le> year \<and> year < 10000 \<and> 1 \<le> month \<and> month \<le> 12
         \<and> 1 \<le> day \<and> day \<le> daysIn month year
         \<and> 0 \<le> hour \<and> hour < 24 \<and> 0 \<le> minute \<and> minute < 60
         \<and> Date year month day hour minute = t - t mod 60000000000"
proof -
  define sec where "sec = t div 1000000000"
  define days where "days = sec div 86400"
  have "t \<le> 253402300799999999999" using ex by (simp add: Format_exact_def)
  from zdiv_mono1[OF this, of 1000000000]
  have sec: "0 \<le> sec" "sec < 253402300800"
    using ex by (simp_all add: Format_exact_def sec_def pos_imp_zdiv_nonneg_iff)
  have days: "0 \<le> days" "days < 2932897"
    using sec by (simp_all add: days_def)
  obtain y yd where y: "year_of_days 1970 days = (y, yd)" by (cases "year_of_days 1970 days")
  obtain m md where m: "month_of_days y 1 yd = (m, md)" by (cases "month_of_days y 1 yd")
  from c have f: "year = y" "month = m" "day = md + 1"
    "hour = sec mod 86400 div 3600" "minute = sec mod 3600 div 60"
    by (simp_all add: civil_def Let_def sec_def[symmetric] days_def[symmetric] y m)
  from year_of_days_correct[OF y days(1)]
  have yc: "1970 \<le> y" "0 \<le> yd" "yd < daysInYear y" "days = days_before_year y + yd"
    by (simp_all add: days_before_year_def)
  have "y < 10000"
  proof (rule ccontr)
    assume "\<not> y < 10000"
    then have "days_before_year 10000 \<le> days_before_year y"
      by (intro days_before_year_mono) simp
    moreover have "days_before_year 10000 = 2932897" by (simp add: days_before_year_def)
    ultimately show False using yc(2,4) days(2) by simp
  qed
  from month_of_days_year[OF m yc(2,3)]
  have mc: "1 \<le> m" "m \<le> 12" "0 \<le> md" "md < daysIn m y" "yd = days_before_month y m + md"
    by simp_all
  have r1: "0 \<le> sec mod 86400" "sec mod 86400 < 86400" by simp_all
  have h: "0 \<le> hour" "hour < 24" unfolding f using r1 by simp_all
  have r2: "0 \<le> sec mod 3600" "sec mod 3600 < 3600" by simp_all
  have mi: "0 \<le> minute" "minute < 60" unfolding f using r2 by simp_all
  have "Date year month day hour minute =
        (days * 86400 + (sec mod 86400 div 3600) * 3600 + (sec mod 3600 div 60) * 60) * 1000000000"
    unfolding Date_def f yc(4) mc(5) by simp
  also have "\<dots> = (sec - sec mod 60) * 1000000000"
    unfolding days_def time_split ..
  also have "\<dots> = t - t mod 60000000000"
    unfolding sec_def by (rule ns_split)
  finally have d: "Date year month day hour minute = t - t mod 60000000000" .
  show ?thesis using yc(1) \<open>y < 10000\<close> mc h mi d by (simp add: f)
qed

lemma Parse_Format:
  assumes ex: "Format_exact t"
  shows "Parse l ''2006-01-02 15:04''
           (Format l1 t ''2006-01-02'' @ '' '' @ Format l2 t ''15:04'')
         = Inr (t - t mod 60000000000)"
proof -
  obtain year month day hour minute where c: "civil t = (year, month, day, hour, minute)"
    by (cases "civil t")
  from civil_fields[OF ex c]
  have b: "1970 \<le> year" "year < 10000" "1 \<le> month" "month \<le> 12"
    "1 \<le> day" "day \<le> daysIn month year" "0 \<le> hour" "hour < 24" "0 \<le> minute" "minute < 60"
    and d: "Date year month day hour minute = t - t mod 60000000000"
    by simp_all
  have "day \<le> 31" using b(6) daysIn_pos(2)[of month year] by simp
  then have p: "dec_val (pad4 year) = year" "list_all is_digit (pad4 year)"
    "dec_val (pad2 month) = month" "list_all is_digit (pad2 month)"
    "dec_val (pad2 day) = day" "list_all is_digit (pad2 day)"
    "dec_val (pad2 hour) = hour" "list_all is_digit (pad2 hour)"
    "dec_val (pad2 minute) = minute" "list_all is_digit (pad2 minute)"
    using b by (simp_all add: dec_val_pad2 dec_val_pad4)
  have l: "length (pad4 year) = 4" "length (pad2 month) = 2" "length (pad2 day) = 2"
    "length (pad2 hour) = 2" "length (pad2 minute) = 2"
    by (simp_all add: pad4_def pad2_def)
  have v: "Format l1 t ''2006-01-02'' @ '' '' @ Format l2 t ''15:04''
           = pad4 year @ CHR ''-'' # pad2 month @ CHR ''-'' # pad2 day @ CHR '' '' # pad2 hour
               @ CHR '':'' # pad2 minute"
    using ex by (simp add: Format_def c)
  show ?thesis
    unfolding v Parse_def using p l b d
    by (simp add: nth_append)
qed


subsection \<open>Decimal numbers\<close>









lemma mul60_whole:
  "\<bar>k * 60\<bar> \<le> 2 ^ 53 \<Longrightarrow> mul60 l (Finite (of_int k)) = Finite (of_int (k * 60))"
proof -
  assume a: "\<bar>k * 60\<bar> \<le> 2 ^ 53"
  have "\<bar>rat_of_int (k * 60)\<bar> \<le> rat_of_int (2 ^ 53)"
    using a by (simp only: of_int_abs[symmetric] of_int_le_iff)
  then show ?thesis by (simp add: is_whole_def)
qed


section \<open>Steps and traces\<close>

lemma fst_emit [simp]: "fst (emit e m) = e # fst m"
  and snd_emit [simp]: "snd (emit e m) = snd m"
  by (simp_all add: emit_def)

lemma fst_fatal [simp]: "fst (fatal fmt as) = [Errorf fmt as]"
  and snd_fatal [simp]: "snd (fatal fmt as) = Inl (Exit 1)"
  by (simp_all add: fatal_def)

lemma fst_bind: "fst (bind m f) = fst m @ (case snd m of Inl a \<Rightarrow> [] | Inr x \<Rightarrow> fst (f x))"
  and snd_bind: "snd (bind m f) = (case snd m of Inl a \<Rightarrow> Inl a | Inr x \<Rightarrow> snd (f x))"
  by (simp_all add: bind_def split: sum.splits)

lemma bind_Inr: "snd m = Inr x \<Longrightarrow> bind m f = (fst m @ fst (f x), snd (f x))"
  and bind_Inl: "snd m = Inl a \<Longrightarrow> bind m f = (fst m, Inl a)"
  by (simp_all add: bind_def)

lemma mutations_append [simp]: "mutations (xs @ ys) = mutations xs @ mutations ys"
  and mutations_Nil [simp]: "mutations [] = []"
  and mutations_Cons: "mutations (e # es) = (if is_mutation e then e # mutations es else mutations es)"
  by (simp_all add: mutations_def)

lemma mutations_deferred_close [simp]: "mutations (deferred_close c) = []"
  by (simp add: deferred_close_def mutations_Cons split: option.splits)

lemma fst_with_deferred_close:
  "fst (with_deferred_close c body) =
     fst body @ (case snd body of Inl (Exit n) \<Rightarrow> [] | _ \<Rightarrow> deferred_close c)"
  and snd_with_deferred_close:
  "snd (with_deferred_close c body) =
     (case snd body of Inr _ \<Rightarrow> Returned | Inl (Panic msg) \<Rightarrow> Panicked msg
      | Inl (Exit n) \<Rightarrow> Exited n)"
  by (simp_all add: with_deferred_close_def split: sum.splits abort.splits)

lemma mutations_with_deferred_close [simp]:
  "mutations (fst (with_deferred_close c body)) = mutations (fst body)"
  by (simp add: fst_with_deferred_close split: sum.splits abort.splits)

section \<open>The upgrade command: its steps\<close>

lemma mutations_upgrade_clients [simp]: "mutations (fst (upgrade_clients env)) = []"
  by (simp add: upgrade_clients_def create_reporter_def fst_bind mutations_Cons
      split: option.splits sum.splits)

lemma mutations_load_cluster [simp]: "mutations (fst (load_cluster env arn)) = []"
  by (simp add: load_cluster_def mutations_Cons split: sum.splits)

lemma mutations_check_scheduled [simp]: "mutations (fst (check_scheduled env cluster)) = []"
  by (simp add: check_scheduled_def mutations_Cons split: sum.splits option.splits)

lemma mutations_resolve_version [simp]: "mutations (fst (resolve_version env cluster)) = []"
  by (simp add: resolve_version_def fst_bind mutations_Cons split: sum.splits list.splits)

lemma mutations_parse_nodeDrain [simp]: "mutations (fst (parse_nodeDrain l s)) = []"
  by (simp add: parse_nodeDrain_def mutations_Cons split: sum.splits list.splits)

lemma mutations_resolve_nodeDrain [simp]: "mutations (fst (resolve_nodeDrain env cluster)) = []"
  by (simp add: resolve_nodeDrain_def prompt_nodeDrain_def fst_bind mutations_Cons
      split: sum.splits)

lemma mutations_submit:
  "mutations (fst (submit env cluster p v)) =
     (case Cluster_Build env of
        Some _ \<Rightarrow> []
      | None \<Rightarrow>
          (case UpgradePolicy_Build env of
             Some _ \<Rightarrow> []
           | None \<Rightarrow>
               AddUpgradePolicy (ID cluster) p #
               (case Add_Send env (ID cluster) p of
                  Some _ \<Rightarrow> []
                | None \<Rightarrow> [UpdateCluster (ID cluster) v])))"
  by (simp add: submit_def mutations_Cons split: option.splits)

lemma mutations_bind_Nil:
  "mutations (fst m) = [] \<Longrightarrow> (\<And>x. mutations (fst (f x)) = []) \<Longrightarrow> mutations (fst (bind m f)) = []"
  by (simp add: fst_bind split: sum.split)

lemma mutations_bind_pure:
  "mutations (fst m) = [] \<Longrightarrow>
   mutations (fst (bind m f)) = (case snd m of Inl _ \<Rightarrow> [] | Inr x \<Rightarrow> mutations (fst (f x)))"
  by (simp add: fst_bind split: sum.split)

lemma mutations_prompt_schedule [simp]: "mutations (fst (prompt_schedule env now d t)) = []"
  unfolding prompt_schedule_def Let_def
  by (simp add: mutations_Cons split: sum.split)

lemma mutations_parse_nextRun [simp]: "mutations (fst (parse_nextRun l dt)) = []"
  by (cases dt) (simp add: mutations_Cons split: sum.split)

lemma mutations_resolve_schedule [simp]: "mutations (fst (resolve_schedule env)) = []"
  unfolding resolve_schedule_def Let_def
  by (rule mutations_bind_Nil) simp_all

lemma mutations_upgrade_connected:
  "mutations (fst (upgrade_connected env arn)) =
     (case snd (load_cluster env arn) of Inl _ \<Rightarrow> [] | Inr cluster \<Rightarrow>
      case snd (check_scheduled env cluster) of Inl _ \<Rightarrow> [] | Inr _ \<Rightarrow>
      case snd (resolve_version env cluster) of Inl _ \<Rightarrow> [] | Inr version \<Rightarrow>
      case snd (resolve_schedule env) of Inl _ \<Rightarrow> [] | Inr nextRun \<Rightarrow>
      case snd (resolve_nodeDrain env cluster) of Inl _ \<Rightarrow> [] | Inr v \<Rightarrow>
        mutations (fst (submit env cluster
          \<lparr> ScheduleType = ''manual'', Version = version, NextRun = nextRun \<rparr> v)))"
  by (simp add: upgrade_connected_def mutations_bind_pure cong: sum.case_cong)

lemma mutations_upgrade_run:
  "mutations (fst (upgrade_run env)) =
     (case snd (upgrade_clients env) of Inl _ \<Rightarrow> [] | Inr arn \<Rightarrow>
        mutations (fst (upgrade_connected env arn)))"
proof (cases "snd (upgrade_clients env)")
  case (Inl a)
  then show ?thesis
    by (cases a) (simp_all add: upgrade_run_def Let_def finish_def)
next
  case (Inr arn)
  obtain es out where w: "with_deferred_close (Close env) (upgrade_connected env arn) = (es, out)"
    by (cases "with_deferred_close (Close env) (upgrade_connected env arn)")
  have "mutations es = mutations (fst (upgrade_connected env arn))"
    using mutations_with_deferred_close[of "Close env" "upgrade_connected env arn"] w by simp
  then show ?thesis using Inr w by (simp add: upgrade_run_def Let_def)
qed

lemma upgrade_clients_cases:
  "(\<exists>n. upgrade_clients env = ([], Inl (Exit n))
        \<and> (CreateReporterOrExit env = Some n \<or> CreateLoggerOrExit env = Some n))
   \<or> (\<exists>fmt as. upgrade_clients env = ([Errorf fmt as], Inl (Exit 1)))
   \<or> (\<exists>arn. upgrade_clients env = ([OpenConnection], Inr arn) \<and> GetCreator env = Inr arn
          \<and> IsValidClusterKey env (args_clusterKey env) \<and> aws_NewClient env = None
          \<and> NewConnection env = None)"
  by (simp add: upgrade_clients_def create_reporter_def bind_def fatal_def
      split: option.split sum.split)

lemma upgrade_clients_ok:
  "IsValidClusterKey env (args_clusterKey env) \<Longrightarrow> aws_NewClient env = None \<Longrightarrow>
   GetCreator env = Inr arn \<Longrightarrow> NewConnection env = None \<Longrightarrow>
   CreateReporterOrExit env = None \<Longrightarrow> CreateLoggerOrExit env = None \<Longrightarrow>
   upgrade_clients env = ([OpenConnection], Inr arn)"
  by (simp add: upgrade_clients_def create_reporter_def bind_def)

lemma upgrade_run_not_created:
  "upgrade_clients env = ([], Inl (Exit n)) \<Longrightarrow> upgrade_run env = ([], Exited n)"
  by (simp add: upgrade_run_def finish_def)

lemma upgrade_run_failed_clients:
  "upgrade_clients env = ([Errorf fmt as], Inl (Exit 1)) \<Longrightarrow>
   upgrade_run env = ([Errorf fmt as], Exited 1)"
  by (simp add: upgrade_run_def finish_def)

lemma upgrade_run_connected:
  "upgrade_clients env = ([OpenConnection], Inr arn) \<Longrightarrow>
   upgrade_run env =
     (OpenConnection # fst (with_deferred_close (Close env) (upgrade_connected env arn)),
      snd (with_deferred_close (Close env) (upgrade_connected env arn)))"
  by (simp add: upgrade_run_def split: prod.split)

lemma load_cluster_not_ready:
  "GetCluster env (args_clusterKey env) arn = Inr cluster \<Longrightarrow> State cluster \<noteq> ClusterStateReady \<Longrightarrow>
   load_cluster env arn =
     ([Debugf ''Loading cluster `%s`'' [S (args_clusterKey env)],
       Errorf ''Cluster `%s` is not yet ready'' [S (args_clusterKey env)]], Inl (Exit 1))"
  by (simp add: load_cluster_def emit_def fatal_def)

lemma load_cluster_ready:
  "GetCluster env (args_clusterKey env) arn = Inr cluster \<Longrightarrow> State cluster = ClusterStateReady \<Longrightarrow>
   load_cluster env arn =
     ([Debugf ''Loading cluster `%s`'' [S (args_clusterKey env)]], Inr cluster)"
  by (simp add: load_cluster_def emit_def)

lemma with_deferred_close_Exit:
  "snd body = Inl (Exit n) \<Longrightarrow> with_deferred_close c body = (fst body, Exited n)"
  by (simp add: with_deferred_close_def)

text \<open>
  C4. A cluster that is not in the state \<open>ready\<close>: the upgrade command ends with exit code
  1 after an error report, and sends no mutating request (no upgrade policy, no cluster
  update). When the steps before the lookup succeed, the trace is exactly the opened
  connection, the debug line and the report that the cluster is not yet ready.
\<close>

theorem upgrade_cluster_not_ready:
  assumes "GetCreator env = Inr arn"
    and "GetCluster env (args_clusterKey env) arn = Inr cluster"
    and "State cluster \<noteq> ClusterStateReady"
    and "CreateReporterOrExit env = None" and "CreateLoggerOrExit env = None"
  shows "snd (upgrade_run env) = Exited 1
         \<and> mutations (fst (upgrade_run env)) = []
         \<and> (\<exists>es fmt as. fst (upgrade_run env) = es @ [Errorf fmt as])
         \<and> (IsValidClusterKey env (args_clusterKey env) \<and> aws_NewClient env = None
              \<and> NewConnection env = None \<longrightarrow>
            fst (upgrade_run env) =
              [OpenConnection,
               Debugf ''Loading cluster `%s`'' [S (args_clusterKey env)],
               Errorf ''Cluster `%s` is not yet ready'' [S (args_clusterKey env)]])"
proof -
  from upgrade_clients_cases[of env] show ?thesis
  proof (elim disjE exE conjE)
    fix n
    assume "CreateReporterOrExit env = Some n"
    then show ?thesis using assms(4) by simp
  next
    fix n
    assume "CreateLoggerOrExit env = Some n"
    then show ?thesis using assms(5) by simp
  next
    fix fmt as
    assume c: "upgrade_clients env = ([Errorf fmt as], Inl (Exit 1))"
    then have "\<not> (IsValidClusterKey env (args_clusterKey env) \<and> aws_NewClient env = None
                  \<and> NewConnection env = None)"
      using upgrade_clients_ok[OF _ _ assms(1) _ assms(4,5)] by auto
    then show ?thesis
      using upgrade_run_failed_clients[OF c] by (simp add: mutations_Cons)
  next
    fix arn'
    assume c: "upgrade_clients env = ([OpenConnection], Inr arn')" and "GetCreator env = Inr arn'"
    then have [simp]: "arn' = arn" using assms(1) by simp
    have l: "load_cluster env arn =
       ([Debugf ''Loading cluster `%s`'' [S (args_clusterKey env)],
         Errorf ''Cluster `%s` is not yet ready'' [S (args_clusterKey env)]], Inl (Exit 1))"
      by (rule load_cluster_not_ready[OF assms(2,3)])
    have u: "upgrade_connected env arn = (fst (load_cluster env arn), Inl (Exit 1))"
      unfolding upgrade_connected_def by (rule bind_Inl) (simp add: l)
    have r: "upgrade_run env =
      ([OpenConnection, Debugf ''Loading cluster `%s`'' [S (args_clusterKey env)],
        Errorf ''Cluster `%s` is not yet ready'' [S (args_clusterKey env)]], Exited 1)"
      using upgrade_run_connected[OF c] by (simp add: u l with_deferred_close_Exit)
    show ?thesis unfolding r by (simp add: mutations_Cons)
  qed
qed

lemma check_scheduled_none:
  "GetScheduledUpgrade env (ID cluster) = Inr None \<Longrightarrow> check_scheduled env cluster = ([], Inr ())"
  by (simp add: check_scheduled_def)

lemma check_scheduled_some:
  "GetScheduledUpgrade env (ID cluster) = Inr (Some su) \<Longrightarrow>
   check_scheduled env cluster =
     ([Warnf ''There is already a scheduled upgrade to version %s on %s''
         [S (Version su), S (Format (lib env) (NextRun su) ''2006-01-02 15:04 MST'')]],
      Inl (Exit 0))"
  by (simp add: check_scheduled_def)

lemma upgrade_connected_scheduled:
  assumes "GetCluster env (args_clusterKey env) arn = Inr cluster"
    and "State cluster = ClusterStateReady"
    and "GetScheduledUpgrade env (ID cluster) = Inr (Some su)"
  shows "upgrade_connected env arn =
     ([Debugf ''Loading cluster `%s`'' [S (args_clusterKey env)],
       Warnf ''There is already a scheduled upgrade to version %s on %s''
         [S (Version su), S (Format (lib env) (NextRun su) ''2006-01-02 15:04 MST'')]],
      Inl (Exit 0))"
  unfolding upgrade_connected_def
  by (simp add: bind_def load_cluster_ready[OF assms(1,2)] check_scheduled_some[OF assms(3)])

text \<open>
  C5. When the query for a scheduled upgrade answers with one, the command warns with
  that upgrade's version and time, leaves with exit code 0, and sends neither a new
  upgrade policy nor a cluster update.
\<close>

theorem upgrade_already_scheduled:
  assumes "IsValidClusterKey env (args_clusterKey env)" and "aws_NewClient env = None"
    and "GetCreator env = Inr arn" and "NewConnection env = None"
    and "GetCluster env (args_clusterKey env) arn = Inr cluster"
    and "State cluster = ClusterStateReady"
    and "GetScheduledUpgrade env (ID cluster) = Inr (Some su)"
    and "CreateReporterOrExit env = None" and "CreateLoggerOrExit env = None"
  shows "upgrade_run env =
           ([OpenConnection,
             Debugf ''Loading cluster `%s`'' [S (args_clusterKey env)],
             Warnf ''There is already a scheduled upgrade to version %s on %s''
               [S (Version su), S (Format (lib env) (NextRun su) ''2006-01-02 15:04 MST'')]],
            Exited 0)
         \<and> mutations (fst (upgrade_run env)) = []"
proof -
  have c: "upgrade_clients env = ([OpenConnection], Inr arn)"
    using assms(1-4) assms(8,9) by (rule upgrade_clients_ok)
  have r: "upgrade_run env =
           ([OpenConnection,
             Debugf ''Loading cluster `%s`'' [S (args_clusterKey env)],
             Warnf ''There is already a scheduled upgrade to version %s on %s''
               [S (Version su), S (Format (lib env) (NextRun su) ''2006-01-02 15:04 MST'')]],
            Exited 0)"
    using upgrade_run_connected[OF c]
    by (simp add: upgrade_connected_scheduled[OF assms(5-7)] with_deferred_close_Exit)
  show ?thesis unfolding r by (simp add: mutations_Cons)
qed

lemma Format_other_layout:
  "layout \<noteq> ''2006-01-02'' \<Longrightarrow> layout \<noteq> ''15:04'' \<Longrightarrow> Format l t layout = Format_rest l t layout"
  by (simp add: Format_def split: prod.split)

lemma upgrade_env_ok_simps:
  "CreateReporterOrExit upgrade_env_ok = None"
  "CreateLoggerOrExit upgrade_env_ok = None"
  "args_clusterKey upgrade_env_ok = ''mycluster''"
  "args_version upgrade_env_ok = ''4.5.20''"
  "args_scheduleDate upgrade_env_ok = ''''"
  "args_scheduleTime upgrade_env_ok = ''''"
  "args_nodeDrainGracePeriod upgrade_env_ok = ''1 hour''"
  "Changed_nodeDrainGracePeriod upgrade_env_ok = False"
  "interactive_Enabled upgrade_env_ok = False"
  "IsValidClusterKey upgrade_env_ok = (\<lambda>_. True)"
  "aws_NewClient upgrade_env_ok = None"
  "GetCreator upgrade_env_ok = Inr ''arn''"
  "NewConnection upgrade_env_ok = None"
  "Close upgrade_env_ok = None"
  "GetCluster upgrade_env_ok = (\<lambda>_ _. Inr cluster_ok)"
  "GetScheduledUpgrade upgrade_env_ok = (\<lambda>_. Inr None)"
  "GetAvailableUpgrades upgrade_env_ok = (\<lambda>_. Inr [''4.5.20'', ''4.5.21''])"
  "Now upgrade_env_ok = 1604103917000000123"
  "Cluster_Build upgrade_env_ok = None"
  "UpgradePolicy_Build upgrade_env_ok = None"
  "Add_Send upgrade_env_ok = (\<lambda>_ _. None)"
  "Update_Send upgrade_env_ok = (\<lambda>_ _. None)"
  "lib upgrade_env_ok = lib0"
  by (simp_all add: upgrade_env_ok_def)

lemma cluster_ok_simps:
  "ID cluster_ok = ''id1''" "State cluster_ok = ClusterStateReady"
  "NodeDrainGracePeriod cluster_ok = None"
  by (simp_all add: cluster_ok_def ClusterStateReady_def)

theorem upgrade_already_scheduled_witness:
  "upgrade_run (upgrade_env_ok
      \<lparr> GetScheduledUpgrade :=
          (\<lambda>_. Inr (Some \<lparr> ScheduleType = ''manual'', Version = ''4.5.19'',
                             NextRun = 1604275200000000000 \<rparr>)) \<rparr>) =
     ([OpenConnection,
       Debugf ''Loading cluster `%s`'' [S ''mycluster''],
       Warnf ''There is already a scheduled upgrade to version %s on %s''
         [S ''4.5.19'', S ''2020-11-02 00:00 UTC'']],
      Exited 0)
   \<and> mutations (fst (upgrade_run (upgrade_env_ok
      \<lparr> GetScheduledUpgrade :=
          (\<lambda>_. Inr (Some \<lparr> ScheduleType = ''manual'', Version = ''4.5.19'',
                             NextRun = 1604275200000000000 \<rparr>)) \<rparr>))) = []"
proof -
  let ?su = "\<lparr> ScheduleType = ''manual'', Version = ''4.5.19'', NextRun = 1604275200000000000 \<rparr>"
  let ?env = "upgrade_env_ok \<lparr> GetScheduledUpgrade := (\<lambda>_. Inr (Some ?su)) \<rparr>"
  have "upgrade_run ?env =
           ([OpenConnection,
             Debugf ''Loading cluster `%s`'' [S (args_clusterKey ?env)],
             Warnf ''There is already a scheduled upgrade to version %s on %s''
               [S (Version ?su), S (Format (lib ?env) (NextRun ?su) ''2006-01-02 15:04 MST'')]],
            Exited 0)
         \<and> mutations (fst (upgrade_run ?env)) = []"
    by (rule upgrade_already_scheduled[where arn = "''arn''" and cluster = cluster_ok])
      (simp_all add: upgrade_env_ok_simps cluster_ok_simps)
  then show ?thesis
    by (simp add: upgrade_env_ok_simps Format_other_layout lib0_def mutations_Cons)
qed

lemma upgrade_run_not_ready:
  assumes "IsValidClusterKey env (args_clusterKey env)" and "aws_NewClient env = None"
    and "GetCreator env = Inr arn" and "NewConnection env = None"
    and "GetCluster env (args_clusterKey env) arn = Inr cluster"
    and "State cluster \<noteq> ClusterStateReady"
    and "CreateReporterOrExit env = None" and "CreateLoggerOrExit env = None"
  shows "upgrade_run env =
           ([OpenConnection,
             Debugf ''Loading cluster `%s`'' [S (args_clusterKey env)],
             Errorf ''Cluster `%s` is not yet ready'' [S (args_clusterKey env)]],
            Exited 1)"
proof -
  have c: "upgrade_clients env = ([OpenConnection], Inr arn)"
    using assms(1-4) assms(7,8) by (rule upgrade_clients_ok)
  have l: "load_cluster env arn =
       ([Debugf ''Loading cluster `%s`'' [S (args_clusterKey env)],
         Errorf ''Cluster `%s` is not yet ready'' [S (args_clusterKey env)]], Inl (Exit 1))"
    by (rule load_cluster_not_ready[OF assms(5,6)])
  have u: "upgrade_connected env arn = (fst (load_cluster env arn), Inl (Exit 1))"
    unfolding upgrade_connected_def by (rule bind_Inl) (simp add: l)
  show ?thesis
    using upgrade_run_connected[OF c] by (simp add: u l with_deferred_close_Exit)
qed

theorem upgrade_cluster_not_ready_witness:
  "snd (upgrade_run (upgrade_env_ok
          \<lparr> GetCluster := (\<lambda>_ _. Inr (cluster_ok \<lparr> State := ''installing'' \<rparr>)) \<rparr>)) = Exited 1
   \<and> mutations (fst (upgrade_run (upgrade_env_ok
          \<lparr> GetCluster := (\<lambda>_ _. Inr (cluster_ok \<lparr> State := ''installing'' \<rparr>)) \<rparr>))) = []
   \<and> fst (upgrade_run (upgrade_env_ok
          \<lparr> GetCluster := (\<lambda>_ _. Inr (cluster_ok \<lparr> State := ''installing'' \<rparr>)) \<rparr>)) =
       [OpenConnection,
        Debugf ''Loading cluster `%s`'' [S ''mycluster''],
        Errorf ''Cluster `%s` is not yet ready'' [S ''mycluster'']]"
proof -
  let ?c = "cluster_ok \<lparr> State := ''installing'' \<rparr>"
  let ?env = "upgrade_env_ok \<lparr> GetCluster := (\<lambda>_ _. Inr ?c) \<rparr>"
  have "snd (upgrade_run ?env) = Exited 1
         \<and> mutations (fst (upgrade_run ?env)) = []
         \<and> (\<exists>es fmt as. fst (upgrade_run ?env) = es @ [Errorf fmt as])
         \<and> (IsValidClusterKey ?env (args_clusterKey ?env) \<and> aws_NewClient ?env = None
              \<and> NewConnection ?env = None \<longrightarrow>
            fst (upgrade_run ?env) =
              [OpenConnection,
               Debugf ''Loading cluster `%s`'' [S (args_clusterKey ?env)],
               Errorf ''Cluster `%s` is not yet ready'' [S (args_clusterKey ?env)]])"
    by (rule upgrade_cluster_not_ready[where arn = "''arn''" and cluster = ?c])
      (simp_all add: upgrade_env_ok_simps cluster_ok_def ClusterStateReady_def)
  then show ?thesis
    by (simp add: upgrade_env_ok_simps mutations_Cons)
qed

section \<open>The upgrade command: the steps before the submission\<close>

lemma validVersion_set: "validVersion vs v \<longleftrightarrow> v \<in> set vs"
  by (induction vs) auto

lemma resolve_version_empty:
  "GetAvailableUpgrades env (GetVersionID env cluster) = Inr [] \<Longrightarrow>
   resolve_version env cluster = ([Warnf ''There are no available upgrades'' []], Inl (Exit 0))"
  by (simp add: resolve_version_def)

lemma resolve_version_supplied:
  assumes "GetAvailableUpgrades env (GetVersionID env cluster) = Inr availableUpgrades"
    and "availableUpgrades \<noteq> []" and "args_version env \<noteq> ''''"
    and "\<not> interactive_Enabled env"
  shows "resolve_version env cluster =
     (if args_version env \<in> set availableUpgrades then ([], Inr (args_version env))
      else ([Errorf ''Expected a valid version to upgrade to'' []], Inl (Exit 1)))"
  using assms
  by (cases availableUpgrades)
    (simp_all add: resolve_version_def bind_def fatal_def validVersion_set del: validVersion.simps)

text \<open>Whatever the mode, a version that gets through is one of the available upgrades.\<close>

lemma resolve_version_available:
  assumes "snd (resolve_version env cluster) = Inr version"
  shows "\<exists>availableUpgrades.
           GetAvailableUpgrades env (GetVersionID env cluster) = Inr availableUpgrades
           \<and> version \<in> set availableUpgrades"
proof (cases "GetAvailableUpgrades env (GetVersionID env cluster)")
  case (Inl err)
  with assms show ?thesis by (simp add: resolve_version_def)
next
  case (Inr availableUpgrades)
  show ?thesis
  proof (cases availableUpgrades)
    case Nil
    with assms Inr show ?thesis by (simp add: resolve_version_def)
  next
    case (Cons first rest)
    have "validVersion availableUpgrades version"
      using assms Inr Cons
      by (simp add: resolve_version_def snd_bind del: validVersion.simps
          split: sum.splits if_splits)
    then show ?thesis using Inr by (simp add: validVersion_set)
  qed
qed

lemma resolve_schedule_default:
  assumes "\<not> interactive_Enabled env" and "args_scheduleDate env = ''''"
    and "args_scheduleTime env = ''''" and "Format_exact (Now env + Minute * 10)"
  shows "resolve_schedule env =
           ([], Inr (Now env + Minute * 10 - (Now env + Minute * 10) mod Minute))"
  using assms Parse_Format[OF assms(4), of "lib env" "lib env" "lib env"]
  by (simp add: resolve_schedule_def Let_def bind_def Minute_def)

lemma upgrade_connected_reached:
  assumes "load_cluster env arn = (es1, Inr cluster)"
    and "check_scheduled env cluster = ([], Inr ())"
    and "resolve_version env cluster = ([], Inr version)"
    and "resolve_schedule env = ([], Inr nextRun)"
  shows "upgrade_connected env arn =
     (es1 @ fst (bind (resolve_nodeDrain env cluster)
                   (submit env cluster
                      \<lparr> ScheduleType = ''manual'', Version = version, NextRun = nextRun \<rparr>)),
      snd (bind (resolve_nodeDrain env cluster)
             (submit env cluster
                \<lparr> ScheduleType = ''manual'', Version = version, NextRun = nextRun \<rparr>)))"
  unfolding upgrade_connected_def by (simp add: assms bind_def)

section \<open>The upgrade command: the grace period\<close>



lemma ParseFloat_literals:
  "ParseFloat l ''1'' = Inr (Finite 1)" "ParseFloat l ''2'' = Inr (Finite 2)"
  "ParseFloat l ''45'' = Inr (Finite 45)" "ParseFloat l ''60'' = Inr (Finite 60)"
  "ParseFloat l ''8'' = Inr (Finite 8)"
  by (simp_all add: ParseFloat_def is_decimal_def is_digit_def dec_val_def digit_val_def)

lemma mul60_literals:
  "mul60 l (Finite 1) = Finite 60" "mul60 l (Finite 2) = Finite 120"
  "mul60 l (Finite 8) = Finite 480"
  using mul60_whole[of 1 l] mul60_whole[of 2 l] mul60_whole[of 8 l] by simp_all

declare mul60.simps [simp del]

lemma parse_nodeDrain_literals:
  "parse_nodeDrain l ''2 hours'' = ([], Inr (Finite 120))"
  "parse_nodeDrain l ''45 minutes'' = ([], Inr (Finite 45))"
  "parse_nodeDrain l ''1 hour'' = ([], Inr (Finite 60))"
  by (simp_all add: parse_nodeDrain_def ParseFloat_literals mul60_literals)

lemma parse_nodeDrain_60:
  "parse_nodeDrain l ''60'' = ([], Inl (Panic ''index out of range [1] with length 1''))"
  by (simp add: parse_nodeDrain_def ParseFloat_literals)



section \<open>The upgrade command: whole runs\<close>

lemma with_deferred_close_Cons:
  "with_deferred_close c (e # es, r) =
     (e # fst (with_deferred_close c (es, r)), snd (with_deferred_close c (es, r)))"
  by (simp add: with_deferred_close_def split: sum.splits abort.splits)

lemma default_nodeDrain_flag:
  "NodeDrainGracePeriod cluster = None \<or> Changed_nodeDrainGracePeriod env \<Longrightarrow>
   default_nodeDrain env cluster = args_nodeDrainGracePeriod env"
  by (auto simp: default_nodeDrain_def Let_def split: option.splits)

lemma resolve_nodeDrain_noninteractive:
  "\<not> interactive_Enabled env \<Longrightarrow>
   resolve_nodeDrain env cluster = parse_nodeDrain (lib env) (default_nodeDrain env cluster)"
  by (simp add: resolve_nodeDrain_def prompt_nodeDrain_def bind_def)

text \<open>
  A run without prompts that gets as far as the grace period: the key is valid, the
  clients are built, the cluster is ready and has no upgrade scheduled, the version
  passed is available, and the date and time are the default.
\<close>

lemma upgrade_run_reached:
  assumes "IsValidClusterKey env (args_clusterKey env)" and "aws_NewClient env = None"
    and "GetCreator env = Inr arn" and "NewConnection env = None"
    and "GetCluster env (args_clusterKey env) arn = Inr cluster"
    and "State cluster = ClusterStateReady"
    and "GetScheduledUpgrade env (ID cluster) = Inr None"
    and "GetAvailableUpgrades env (GetVersionID env cluster) = Inr availableUpgrades"
    and "args_version env \<in> set availableUpgrades" and "args_version env \<noteq> ''''"
    and "\<not> interactive_Enabled env" and "args_scheduleDate env = ''''"
    and "args_scheduleTime env = ''''" and "Format_exact (Now env + Minute * 10)"
    and "body = bind (parse_nodeDrain (lib env) (default_nodeDrain env cluster))
                 (submit env cluster
                    \<lparr> ScheduleType = ''manual'', Version = args_version env,
                      NextRun = Now env + Minute * 10 - (Now env + Minute * 10) mod Minute \<rparr>)"
    and "CreateReporterOrExit env = None" and "CreateLoggerOrExit env = None"
  shows "upgrade_run env =
           (OpenConnection # Debugf ''Loading cluster `%s`'' [S (args_clusterKey env)]
              # fst (with_deferred_close (Close env) body),
            snd (with_deferred_close (Close env) body))"
proof -
  have c: "upgrade_clients env = ([OpenConnection], Inr arn)"
    using assms(1-4) assms(16,17) by (rule upgrade_clients_ok)
  have ne: "availableUpgrades \<noteq> []" using assms(9) by auto
  have v: "resolve_version env cluster = ([], Inr (args_version env))"
    using resolve_version_supplied[OF assms(8) ne assms(10,11)] assms(9) by simp
  have u: "upgrade_connected env arn =
             (Debugf ''Loading cluster `%s`'' [S (args_clusterKey env)] # fst body, snd body)"
    using upgrade_connected_reached[OF load_cluster_ready[OF assms(5,6)]
        check_scheduled_none[OF assms(7)] v resolve_schedule_default[OF assms(11-14)]]
    by (simp add: resolve_nodeDrain_noninteractive[OF assms(11)] assms(15))
  show ?thesis
    using upgrade_run_connected[OF c] by (simp add: u with_deferred_close_Cons)
qed

text \<open>The scenario of the specification, run.\<close>

lemma upgrade_run_ok:
  "upgrade_run upgrade_env_ok =
     ([OpenConnection,
       Debugf ''Loading cluster `%s`'' [S ''mycluster''],
       AddUpgradePolicy ''id1''
         \<lparr> ScheduleType = ''manual'', Version = ''4.5.20'', NextRun = 1604104500000000000 \<rparr>,
       UpdateCluster ''id1'' (Finite 60),
       Infof ''Upgrade successfully scheduled for cluster `%s`'' [S ''mycluster''],
       CloseConnection],
      Returned)"
proof -
  have d: "default_nodeDrain upgrade_env_ok cluster_ok = ''1 hour''"
    using default_nodeDrain_flag[of cluster_ok upgrade_env_ok]
    by (simp add: cluster_ok_simps upgrade_env_ok_simps)
  have "upgrade_run upgrade_env_ok =
           (OpenConnection # Debugf ''Loading cluster `%s`'' [S (args_clusterKey upgrade_env_ok)]
              # fst (with_deferred_close (Close upgrade_env_ok)
                  (bind (parse_nodeDrain (lib upgrade_env_ok) ''1 hour'')
                     (submit upgrade_env_ok cluster_ok
                        \<lparr> ScheduleType = ''manual'', Version = ''4.5.20'',
                          NextRun = 1604104500000000000 \<rparr>))),
            snd (with_deferred_close (Close upgrade_env_ok)
                  (bind (parse_nodeDrain (lib upgrade_env_ok) ''1 hour'')
                     (submit upgrade_env_ok cluster_ok
                        \<lparr> ScheduleType = ''manual'', Version = ''4.5.20'',
                          NextRun = 1604104500000000000 \<rparr>))))"
    by (rule upgrade_run_reached[where arn = "''arn''" and cluster = cluster_ok
          and availableUpgrades = "[''4.5.20'', ''4.5.21'']"])
      (simp_all add: upgrade_env_ok_simps cluster_ok_simps Format_exact_def Minute_def d)
  then show ?thesis
    by (simp add: parse_nodeDrain_literals bind_def submit_def emit_def
        with_deferred_close_def deferred_close_def upgrade_env_ok_simps cluster_ok_simps)
qed

text \<open>
  C2. The claim: a grace period that is malformed, one with no unit such as \<open>60\<close>
  included, ends in a reported fatal input error and in nothing else. For the flag value
  \<open>60\<close> the number parses, and reading the unit is an index out of range: the run ends
  in a run-time panic, with no error reported by the command.
\<close>

theorem nodeDrain_without_unit_panics:
  "parse_nodeDrain l ''60'' = ([], Inl (Panic ''index out of range [1] with length 1''))
   \<and> upgrade_run (upgrade_env_ok
         \<lparr> args_nodeDrainGracePeriod := ''60'', Changed_nodeDrainGracePeriod := True \<rparr>) =
       ([OpenConnection,
         Debugf ''Loading cluster `%s`'' [S ''mycluster''],
         CloseConnection],
        Panicked ''index out of range [1] with length 1'')"
proof -
  let ?env = "upgrade_env_ok
         \<lparr> args_nodeDrainGracePeriod := ''60'', Changed_nodeDrainGracePeriod := True \<rparr>"
  have d: "default_nodeDrain ?env cluster_ok = ''60''"
    using default_nodeDrain_flag[of cluster_ok ?env] by simp
  have "upgrade_run ?env =
           (OpenConnection # Debugf ''Loading cluster `%s`'' [S (args_clusterKey ?env)]
              # fst (with_deferred_close (Close ?env)
                  (bind (parse_nodeDrain (lib ?env) ''60'')
                     (submit ?env cluster_ok
                        \<lparr> ScheduleType = ''manual'', Version = ''4.5.20'',
                          NextRun = 1604104500000000000 \<rparr>))),
            snd (with_deferred_close (Close ?env)
                  (bind (parse_nodeDrain (lib ?env) ''60'')
                     (submit ?env cluster_ok
                        \<lparr> ScheduleType = ''manual'', Version = ''4.5.20'',
                          NextRun = 1604104500000000000 \<rparr>))))"
    by (rule upgrade_run_reached[where arn = "''arn''" and cluster = cluster_ok
          and availableUpgrades = "[''4.5.20'', ''4.5.21'']"])
      (simp_all add: upgrade_env_ok_simps cluster_ok_simps Format_exact_def Minute_def d)
  then show ?thesis
    by (simp add: parse_nodeDrain_60 bind_def with_deferred_close_def deferred_close_def
        upgrade_env_ok_simps)
qed

section \<open>The upgrade command: the submission\<close>

lemma submit_add_fails:
  "Cluster_Build env = None \<Longrightarrow> UpgradePolicy_Build env = None \<Longrightarrow>
   Add_Send env (ID cluster) p = Some err \<Longrightarrow>
   submit env cluster p v =
     ([AddUpgradePolicy (ID cluster) p,
       Errorf ''Failed to schedule upgrade for cluster `%s`: %v'' [S (args_clusterKey env), E err]],
      Inl (Exit 1))"
  by (simp add: submit_def emit_def fatal_def)

lemma submit_update_fails:
  "Cluster_Build env = None \<Longrightarrow> UpgradePolicy_Build env = None \<Longrightarrow>
   Add_Send env (ID cluster) p = None \<Longrightarrow> Update_Send env (ID cluster) v = Some err \<Longrightarrow>
   submit env cluster p v =
     ([AddUpgradePolicy (ID cluster) p, UpdateCluster (ID cluster) v,
       Errorf ''Failed to update cluster `%s`: %v'' [S (args_clusterKey env), E err]],
      Inl (Exit 1))"
  by (simp add: submit_def emit_def fatal_def)

lemma submit_ok:
  "Cluster_Build env = None \<Longrightarrow> UpgradePolicy_Build env = None \<Longrightarrow>
   Add_Send env (ID cluster) p = None \<Longrightarrow> Update_Send env (ID cluster) v = None \<Longrightarrow>
   submit env cluster p v =
     ([AddUpgradePolicy (ID cluster) p, UpdateCluster (ID cluster) v,
       Infof ''Upgrade successfully scheduled for cluster `%s`'' [S (args_clusterKey env)]],
      Inr ())"
  by (simp add: submit_def emit_def)

lemma mutations_submit_cases:
  "mutations (fst (submit env cluster p v)) = []
   \<or> mutations (fst (submit env cluster p v)) = [AddUpgradePolicy (ID cluster) p]
      \<and> Cluster_Build env = None \<and> UpgradePolicy_Build env = None
      \<and> Add_Send env (ID cluster) p \<noteq> None
   \<or> mutations (fst (submit env cluster p v)) =
        [AddUpgradePolicy (ID cluster) p, UpdateCluster (ID cluster) v]
      \<and> Cluster_Build env = None \<and> UpgradePolicy_Build env = None
      \<and> Add_Send env (ID cluster) p = None"
  by (simp add: mutations_submit split: option.splits)

lemma load_cluster_Inr:
  "snd (load_cluster env arn) = Inr cluster \<Longrightarrow>
   GetCluster env (args_clusterKey env) arn = Inr cluster \<and> State cluster = ClusterStateReady"
  by (simp add: load_cluster_def split: sum.splits if_splits)

lemma with_deferred_close_append:
  "with_deferred_close c (pre @ es, r) =
     (pre @ fst (with_deferred_close c (es, r)), snd (with_deferred_close c (es, r)))"
  by (simp add: with_deferred_close_def split: sum.splits abort.splits)

text \<open>
  A run that sends a mutating request went through every step before the submission:
  its trace is what those steps reported, then the submission, then the deferred close
  if the submission returned.
\<close>

lemma upgrade_run_submitted:
  assumes "mutations (fst (upgrade_run env)) \<noteq> []"
  shows "\<exists>pre arn cluster p v.
           fst (upgrade_run env) = pre @ fst (with_deferred_close (Close env) (submit env cluster p v))
           \<and> snd (upgrade_run env) = snd (with_deferred_close (Close env) (submit env cluster p v))
           \<and> mutations pre = []
           \<and> GetCreator env = Inr arn
           \<and> GetCluster env (args_clusterKey env) arn = Inr cluster
           \<and> ScheduleType p = ''manual''
           \<and> snd (resolve_version env cluster) = Inr (Version p)
           \<and> snd (resolve_schedule env) = Inr (NextRun p)
           \<and> snd (resolve_nodeDrain env cluster) = Inr v"
proof -
  from upgrade_clients_cases[of env]
  obtain arn where c: "upgrade_clients env = ([OpenConnection], Inr arn)"
    and arn: "GetCreator env = Inr arn"
    using assms upgrade_run_failed_clients[of env] upgrade_run_not_created[of env]
    by (auto simp: mutations_Cons)
  have m: "mutations (fst (upgrade_connected env arn)) \<noteq> []"
    using assms by (simp add: mutations_upgrade_run c)
  obtain cluster where s1: "snd (load_cluster env arn) = Inr cluster"
    using m by (cases "snd (load_cluster env arn)") (simp_all add: mutations_upgrade_connected)
  obtain u where s2: "snd (check_scheduled env cluster) = Inr u"
    using m s1 by (cases "snd (check_scheduled env cluster)")
      (simp_all add: mutations_upgrade_connected)
  obtain version where s3: "snd (resolve_version env cluster) = Inr version"
    using m s1 s2 by (cases "snd (resolve_version env cluster)")
      (simp_all add: mutations_upgrade_connected)
  obtain nextRun where s4: "snd (resolve_schedule env) = Inr nextRun"
    using m s1 s2 s3 by (cases "snd (resolve_schedule env)")
      (simp_all add: mutations_upgrade_connected)
  obtain v where s5: "snd (resolve_nodeDrain env cluster) = Inr v"
    using m s1 s2 s3 s4 by (cases "snd (resolve_nodeDrain env cluster)")
      (simp_all add: mutations_upgrade_connected)
  let ?p = "\<lparr> ScheduleType = ''manual'', Version = version, NextRun = nextRun \<rparr>"
  let ?pre = "fst (load_cluster env arn) @ fst (check_scheduled env cluster)
              @ fst (resolve_version env cluster) @ fst (resolve_schedule env)
              @ fst (resolve_nodeDrain env cluster)"
  have u: "upgrade_connected env arn =
             (?pre @ fst (submit env cluster ?p v), snd (submit env cluster ?p v))"
    unfolding upgrade_connected_def
    by (simp add: bind_Inr[OF s1] bind_Inr[OF s2] bind_Inr[OF s3] bind_Inr[OF s4] bind_Inr[OF s5])
  have r: "upgrade_run env =
      ((OpenConnection # ?pre) @ fst (with_deferred_close (Close env) (submit env cluster ?p v)),
       snd (with_deferred_close (Close env) (submit env cluster ?p v)))"
    using upgrade_run_connected[OF c] with_deferred_close_append[of "Close env" ?pre
        "fst (submit env cluster ?p v)" "snd (submit env cluster ?p v)"]
    by (simp add: u)
  have "mutations (OpenConnection # ?pre) = []" by (simp add: mutations_Cons)
  then show ?thesis
    using r arn load_cluster_Inr[OF s1] s3 s4 s5
    by (intro exI[of _ "OpenConnection # ?pre"] exI[of _ arn] exI[of _ cluster] exI[of _ ?p]
        exI[of _ v]) simp
qed

lemma upgrade_run_fixture:
  assumes "env = upgrade_env_ok \<lparr> Close := c, Add_Send := a, Update_Send := u \<rparr>"
  shows "upgrade_run env =
           (OpenConnection # Debugf ''Loading cluster `%s`'' [S ''mycluster'']
              # fst (with_deferred_close c
                  (submit env cluster_ok
                     \<lparr> ScheduleType = ''manual'', Version = ''4.5.20'',
                       NextRun = 1604104500000000000 \<rparr> (Finite 60))),
            snd (with_deferred_close c
                  (submit env cluster_ok
                     \<lparr> ScheduleType = ''manual'', Version = ''4.5.20'',
                       NextRun = 1604104500000000000 \<rparr> (Finite 60))))"
proof -
  have d: "default_nodeDrain env cluster_ok = ''1 hour''"
    using default_nodeDrain_flag[of cluster_ok env]
    by (simp add: assms cluster_ok_simps upgrade_env_ok_simps)
  have "upgrade_run env =
           (OpenConnection # Debugf ''Loading cluster `%s`'' [S (args_clusterKey env)]
              # fst (with_deferred_close (Close env)
                  (bind (parse_nodeDrain (lib env) ''1 hour'')
                     (submit env cluster_ok
                        \<lparr> ScheduleType = ''manual'', Version = ''4.5.20'',
                          NextRun = 1604104500000000000 \<rparr>))),
            snd (with_deferred_close (Close env)
                  (bind (parse_nodeDrain (lib env) ''1 hour'')
                     (submit env cluster_ok
                        \<lparr> ScheduleType = ''manual'', Version = ''4.5.20'',
                          NextRun = 1604104500000000000 \<rparr>))))"
    by (rule upgrade_run_reached[where arn = "''arn''" and cluster = cluster_ok
          and availableUpgrades = "[''4.5.20'', ''4.5.21'']"])
      (simp_all add: assms upgrade_env_ok_simps cluster_ok_simps Format_exact_def Minute_def
        d[unfolded assms])
  then show ?thesis
    by (simp add: parse_nodeDrain_literals bind_def assms upgrade_env_ok_simps)
qed

lemma upgrade_run_add_fails:
  "upgrade_run (upgrade_env_ok \<lparr> Add_Send := (\<lambda>_ _. Some ''503'') \<rparr>) =
     ([OpenConnection,
       Debugf ''Loading cluster `%s`'' [S ''mycluster''],
       AddUpgradePolicy ''id1''
         \<lparr> ScheduleType = ''manual'', Version = ''4.5.20'', NextRun = 1604104500000000000 \<rparr>,
       Errorf ''Failed to schedule upgrade for cluster `%s`: %v'' [S ''mycluster'', E ''503'']],
      Exited 1)"
  using upgrade_run_fixture[where env = "upgrade_env_ok \<lparr> Add_Send := (\<lambda>_ _. Some ''503'') \<rparr>"
      and c = None and a = "\<lambda>_ _. Some ''503''" and u = "\<lambda>_ _. None"]
  by (simp add: upgrade_env_ok_def submit_def emit_def fatal_def with_deferred_close_def
      cluster_ok_simps)

lemma upgrade_run_update_fails:
  "upgrade_run (upgrade_env_ok \<lparr> Update_Send := (\<lambda>_ _. Some ''503'') \<rparr>) =
     ([OpenConnection,
       Debugf ''Loading cluster `%s`'' [S ''mycluster''],
       AddUpgradePolicy ''id1''
         \<lparr> ScheduleType = ''manual'', Version = ''4.5.20'', NextRun = 1604104500000000000 \<rparr>,
       UpdateCluster ''id1'' (Finite 60),
       Errorf ''Failed to update cluster `%s`: %v'' [S ''mycluster'', E ''503'']],
      Exited 1)"
  using upgrade_run_fixture[where env = "upgrade_env_ok \<lparr> Update_Send := (\<lambda>_ _. Some ''503'') \<rparr>"
      and c = None and a = "\<lambda>_ _. None" and u = "\<lambda>_ _. Some ''503''"]
  by (simp add: upgrade_env_ok_def submit_def emit_def fatal_def with_deferred_close_def
      cluster_ok_simps)

text \<open>
  C7. The upgrade policy is sent before the cluster update, and these are the only
  mutating requests of a run. When sending the policy fails, the update is not sent and
  the command reports the error and leaves with exit code 1. When the policy is sent and
  the update fails, the command reports that error and leaves with exit code 1; the
  policy stays, as nothing is sent after the failed update.
\<close>

theorem submission_order:
  "(\<exists>cid p v. mutations (fst (upgrade_run env)) = []
        \<or> mutations (fst (upgrade_run env)) = [AddUpgradePolicy cid p]
        \<or> mutations (fst (upgrade_run env)) = [AddUpgradePolicy cid p, UpdateCluster cid v])
   \<and> (AddUpgradePolicy cid p \<in> set (fst (upgrade_run env)) \<and> Add_Send env cid p = Some err \<longrightarrow>
        snd (upgrade_run env) = Exited 1
        \<and> mutations (fst (upgrade_run env)) = [AddUpgradePolicy cid p]
        \<and> (\<exists>es. fst (upgrade_run env) =
              es @ [AddUpgradePolicy cid p,
                    Errorf ''Failed to schedule upgrade for cluster `%s`: %v''
                      [S (args_clusterKey env), E err]]))
   \<and> (UpdateCluster cid v \<in> set (fst (upgrade_run env)) \<and> Update_Send env cid v = Some err \<longrightarrow>
        snd (upgrade_run env) = Exited 1
        \<and> (\<exists>es q. Add_Send env cid q = None
              \<and> mutations (fst (upgrade_run env)) = [AddUpgradePolicy cid q, UpdateCluster cid v]
              \<and> fst (upgrade_run env) =
                  es @ [AddUpgradePolicy cid q, UpdateCluster cid v,
                        Errorf ''Failed to update cluster `%s`: %v''
                          [S (args_clusterKey env), E err]]))"
proof -
  have part1: "\<exists>cid p v. mutations (fst (upgrade_run env)) = []
        \<or> mutations (fst (upgrade_run env)) = [AddUpgradePolicy cid p]
        \<or> mutations (fst (upgrade_run env)) = [AddUpgradePolicy cid p, UpdateCluster cid v]"
  proof (cases "mutations (fst (upgrade_run env)) = []")
    case True
    then show ?thesis by simp
  next
    case False
    from upgrade_run_submitted[OF False] obtain pre cluster q w where
      f: "fst (upgrade_run env) = pre @ fst (with_deferred_close (Close env) (submit env cluster q w))"
      and p: "mutations pre = []"
      by blast
    have "mutations (fst (upgrade_run env)) = mutations (fst (submit env cluster q w))"
      unfolding f by (simp add: p)
    then show ?thesis
      using mutations_submit_cases[of env cluster q w] by metis
  qed
  have part2: "snd (upgrade_run env) = Exited 1
        \<and> mutations (fst (upgrade_run env)) = [AddUpgradePolicy cid p]
        \<and> (\<exists>es. fst (upgrade_run env) =
              es @ [AddUpgradePolicy cid p,
                    Errorf ''Failed to schedule upgrade for cluster `%s`: %v''
                      [S (args_clusterKey env), E err]])"
    if a: "AddUpgradePolicy cid p \<in> set (fst (upgrade_run env)) \<and> Add_Send env cid p = Some err"
  proof -
  from a have "AddUpgradePolicy cid p \<in> set (mutations (fst (upgrade_run env)))"
    by (simp add: mutations_def)
  then have ne: "mutations (fst (upgrade_run env)) \<noteq> []" by auto
  from upgrade_run_submitted[OF ne] obtain pre cluster q w where
    f: "fst (upgrade_run env) = pre @ fst (with_deferred_close (Close env) (submit env cluster q w))"
    and s: "snd (upgrade_run env) = snd (with_deferred_close (Close env) (submit env cluster q w))"
    and p: "mutations pre = []"
    by blast
  have m: "mutations (fst (upgrade_run env)) = mutations (fst (submit env cluster q w))"
    unfolding f by (simp add: p)
  have in_m: "AddUpgradePolicy cid p \<in> set (mutations (fst (submit env cluster q w)))"
    using \<open>AddUpgradePolicy cid p \<in> set (mutations (fst (upgrade_run env)))\<close> m by simp
  then have e: "cid = ID cluster" "p = q" "Cluster_Build env = None" "UpgradePolicy_Build env = None"
    using mutations_submit_cases[of env cluster q w] by auto
  have sub: "submit env cluster q w =
     ([AddUpgradePolicy (ID cluster) q,
       Errorf ''Failed to schedule upgrade for cluster `%s`: %v'' [S (args_clusterKey env), E err]],
      Inl (Exit 1))"
    using a e by (intro submit_add_fails) simp_all
  show ?thesis
    unfolding f s sub using p e by (simp add: with_deferred_close_def mutations_Cons)
  qed
  have part3: "snd (upgrade_run env) = Exited 1
        \<and> (\<exists>es q. Add_Send env cid q = None
              \<and> mutations (fst (upgrade_run env)) = [AddUpgradePolicy cid q, UpdateCluster cid v]
              \<and> fst (upgrade_run env) =
                  es @ [AddUpgradePolicy cid q, UpdateCluster cid v,
                        Errorf ''Failed to update cluster `%s`: %v''
                          [S (args_clusterKey env), E err]])"
    if a: "UpdateCluster cid v \<in> set (fst (upgrade_run env)) \<and> Update_Send env cid v = Some err"
  proof -
  from a have in_r: "UpdateCluster cid v \<in> set (mutations (fst (upgrade_run env)))"
    by (simp add: mutations_def)
  then have ne: "mutations (fst (upgrade_run env)) \<noteq> []" by auto
  from upgrade_run_submitted[OF ne] obtain pre cluster q w where
    f: "fst (upgrade_run env) = pre @ fst (with_deferred_close (Close env) (submit env cluster q w))"
    and s: "snd (upgrade_run env) = snd (with_deferred_close (Close env) (submit env cluster q w))"
    and p: "mutations pre = []"
    by blast
  have m: "mutations (fst (upgrade_run env)) = mutations (fst (submit env cluster q w))"
    unfolding f by (simp add: p)
  have "UpdateCluster cid v \<in> set (mutations (fst (submit env cluster q w)))"
    using in_r m by simp
  then have e: "cid = ID cluster" "v = w" "Cluster_Build env = None" "UpgradePolicy_Build env = None"
    "Add_Send env (ID cluster) q = None"
    using mutations_submit_cases[of env cluster q w] by auto
  have sub: "submit env cluster q w =
     ([AddUpgradePolicy (ID cluster) q, UpdateCluster (ID cluster) w,
       Errorf ''Failed to update cluster `%s`: %v'' [S (args_clusterKey env), E err]],
      Inl (Exit 1))"
    using a e by (intro submit_update_fails) simp_all
  have "fst (upgrade_run env) =
          pre @ [AddUpgradePolicy cid q, UpdateCluster cid v,
                 Errorf ''Failed to update cluster `%s`: %v'' [S (args_clusterKey env), E err]]"
    unfolding f sub using e by (simp add: with_deferred_close_def)
  moreover have "mutations (fst (upgrade_run env)) = [AddUpgradePolicy cid q, UpdateCluster cid v]"
    unfolding m sub using e by (simp add: mutations_Cons)
  moreover have "snd (upgrade_run env) = Exited 1"
    unfolding s sub by (simp add: with_deferred_close_def)
  ultimately show ?thesis
    using e by blast
  qed
  show ?thesis
    using part1 part2 part3 by blast
qed

theorem submission_order_witness:
  "snd (upgrade_run (upgrade_env_ok \<lparr> Add_Send := (\<lambda>_ _. Some ''503'') \<rparr>)) = Exited 1
   \<and> mutations (fst (upgrade_run (upgrade_env_ok \<lparr> Add_Send := (\<lambda>_ _. Some ''503'') \<rparr>))) =
       [AddUpgradePolicy ''id1''
          \<lparr> ScheduleType = ''manual'', Version = ''4.5.20'', NextRun = 1604104500000000000 \<rparr>]
   \<and> snd (upgrade_run (upgrade_env_ok \<lparr> Update_Send := (\<lambda>_ _. Some ''503'') \<rparr>)) = Exited 1
   \<and> (\<exists>q. mutations (fst (upgrade_run (upgrade_env_ok \<lparr> Update_Send := (\<lambda>_ _. Some ''503'') \<rparr>))) =
       [AddUpgradePolicy ''id1'' q, UpdateCluster ''id1'' (Finite 60)])"
proof -
  let ?p = "\<lparr> ScheduleType = ''manual'', Version = ''4.5.20'', NextRun = 1604104500000000000 \<rparr>"
  let ?a = "upgrade_env_ok \<lparr> Add_Send := (\<lambda>_ _. Some ''503'') \<rparr>"
  let ?u = "upgrade_env_ok \<lparr> Update_Send := (\<lambda>_ _. Some ''503'') \<rparr>"
  have a: "AddUpgradePolicy ''id1'' ?p \<in> set (fst (upgrade_run ?a))
           \<and> Add_Send ?a ''id1'' ?p = Some ''503''"
    by (simp add: upgrade_run_add_fails)
  have u: "UpdateCluster ''id1'' (Finite 60) \<in> set (fst (upgrade_run ?u))
           \<and> Update_Send ?u ''id1'' (Finite 60) = Some ''503''"
    by (simp add: upgrade_run_update_fails)
  show ?thesis
    using submission_order[of ?a "''id1''" ?p "''503''" "Finite 60"]
      submission_order[of ?u "''id1''" ?p "''503''" "Finite 60"] a u
    by blast
qed

section \<open>The upgrade command: early exits and the version check\<close>

lemma revoke_run_cluster_not_found:
  "revoke_run ((revoke_env_ok ''cluster-admins'') \<lparr> rv_GetCluster := (\<lambda>_ _. Inl ''not found'') \<rparr>) =
     ([OpenConnection,
       Debugf ''Loading cluster `%s`'' [S ''mycluster''],
       Errorf ''Failed to get cluster `%s`: %v'' [S ''mycluster'', E ''not found'']],
      Exited 1)"
  by (simp add: revoke_run_def revoke_env_ok_def revoke_args_def create_reporter_def check_role_def
      canonical_role_def validRolesAliases_def isRoleValid_def validRoles_def
      revoke_clients_def revoke_connected_def bind_def emit_def fatal_def
      with_deferred_close_def)

text \<open>
  C3. The claim: on every path, a connection that was opened is closed before the
  process exits. The close is a deferred function, and \<open>os.Exit\<close> runs no deferred
  function: in the upgrade command with a cluster that is still installing, and in the
  revoke command with a cluster that is not found, the connection is opened and the
  process exits with code 1 without closing it.
\<close>

theorem exit_skips_deferred_close:
  "upgrade_run (upgrade_env_ok
      \<lparr> GetCluster := (\<lambda>_ _. Inr (cluster_ok \<lparr> State := ''installing'' \<rparr>)) \<rparr>) =
     ([OpenConnection,
       Debugf ''Loading cluster `%s`'' [S ''mycluster''],
       Errorf ''Cluster `%s` is not yet ready'' [S ''mycluster'']],
      Exited 1)
   \<and> revoke_run ((revoke_env_ok ''cluster-admins'')
        \<lparr> rv_GetCluster := (\<lambda>_ _. Inl ''not found'') \<rparr>) =
     ([OpenConnection,
       Debugf ''Loading cluster `%s`'' [S ''mycluster''],
       Errorf ''Failed to get cluster `%s`: %v'' [S ''mycluster'', E ''not found'']],
      Exited 1)"
proof -
  let ?c = "cluster_ok \<lparr> State := ''installing'' \<rparr>"
  let ?env = "upgrade_env_ok \<lparr> GetCluster := (\<lambda>_ _. Inr ?c) \<rparr>"
  have "upgrade_run ?env =
           ([OpenConnection,
             Debugf ''Loading cluster `%s`'' [S (args_clusterKey ?env)],
             Errorf ''Cluster `%s` is not yet ready'' [S (args_clusterKey ?env)]],
            Exited 1)"
    by (rule upgrade_run_not_ready[where arn = "''arn''" and cluster = ?c])
      (simp_all add: upgrade_env_ok_simps cluster_ok_def ClusterStateReady_def)
  then show ?thesis
    by (simp add: upgrade_env_ok_simps revoke_run_cluster_not_found)
qed

lemma Parse_other_layout:
  "layout \<noteq> ''2006-01-02 15:04'' \<Longrightarrow> Parse l layout v = Parse_rest l layout v"
  by (simp add: Parse_def Let_def)

lemma upgrade_env_interactive_simps:
  "CreateReporterOrExit upgrade_env_interactive = None"
  "CreateLoggerOrExit upgrade_env_interactive = None"
  "args_clusterKey upgrade_env_interactive = ''mycluster''"
  "args_version upgrade_env_interactive = ''4.5.99''"
  "args_scheduleDate upgrade_env_interactive = ''''"
  "args_scheduleTime upgrade_env_interactive = ''''"
  "args_nodeDrainGracePeriod upgrade_env_interactive = ''1 hour''"
  "Changed_nodeDrainGracePeriod upgrade_env_interactive = False"
  "interactive_Enabled upgrade_env_interactive = True"
  "IsValidClusterKey upgrade_env_interactive = (\<lambda>_. True)"
  "aws_NewClient upgrade_env_interactive = None"
  "GetCreator upgrade_env_interactive = Inr ''arn''"
  "NewConnection upgrade_env_interactive = None"
  "Close upgrade_env_interactive = None"
  "GetCluster upgrade_env_interactive = (\<lambda>_ _. Inr cluster_ok)"
  "GetScheduledUpgrade upgrade_env_interactive = (\<lambda>_. Inr None)"
  "GetAvailableUpgrades upgrade_env_interactive = (\<lambda>_. Inr [''4.5.20'', ''4.5.21''])"
  "GetOption upgrade_env_interactive = (\<lambda>i. Inr (hd (Options i)))"
  "GetString upgrade_env_interactive = (\<lambda>i. Inr (Default i))"
  "Now upgrade_env_interactive = 1604103917000000123"
  "Cluster_Build upgrade_env_interactive = None"
  "UpgradePolicy_Build upgrade_env_interactive = None"
  "Add_Send upgrade_env_interactive = (\<lambda>_ _. None)"
  "Update_Send upgrade_env_interactive = (\<lambda>_ _. None)"
  "lib upgrade_env_interactive = lib_lenient"
  by (simp_all add: upgrade_env_interactive_def upgrade_env_ok_def)

lemma resolve_version_interactive:
  "resolve_version upgrade_env_interactive cluster_ok = ([], Inr ''4.5.20'')"
  by (simp add: resolve_version_def upgrade_env_interactive_simps bind_def)

lemma resolve_schedule_interactive:
  "resolve_schedule upgrade_env_interactive = ([], Inr 1604104500000000000)"
proof -
  let ?l = lib_lenient
  have e1: "Format_exact 1604104517000000123" and e2: "Format_exact 1604104500000000000"
    by (simp_all add: Format_exact_def)
  have p1: "Parse ?l ''2006-01-02 15:04''
              (Format ?l 1604104517000000123 ''2006-01-02'' @ '' ''
                 @ Format ?l 1604104517000000123 ''15:04'') = Inr 1604104500000000000"
    using Parse_Format[OF e1, of ?l ?l ?l] by simp
  have p2: "Parse ?l ''2006-01-02 15:04''
              (Format ?l 1604104500000000000 ''2006-01-02'' @ '' ''
                 @ Format ?l 1604104500000000000 ''15:04'') = Inr 1604104500000000000"
    using Parse_Format[OF e2, of ?l ?l ?l] by simp
  have r: "Parse ?l ''2006-01-02'' v = Inr 0" "Parse ?l ''15:04'' v = Inr 0" for v
    by (simp_all add: Parse_other_layout lib_lenient_def)
  have ps: "prompt_schedule upgrade_env_interactive 1604104517000000123
              (Format ?l 1604104517000000123 ''2006-01-02'')
              (Format ?l 1604104517000000123 ''15:04'') =
            ([], Inr (Format ?l 1604104500000000000 ''2006-01-02'',
                      Format ?l 1604104500000000000 ''15:04''))"
    unfolding prompt_schedule_def upgrade_env_interactive_simps p1
    by (simp add: r)
  show ?thesis
    unfolding resolve_schedule_def upgrade_env_interactive_simps Minute_def
    by (simp add: ps bind_def p2[simplified])
qed

lemma ParseFloat_15: "ParseFloat l ''15'' = Inr (Finite 15)"
  by (simp add: ParseFloat_def is_decimal_def is_digit_def dec_val_def digit_val_def)

lemma resolve_nodeDrain_interactive:
  "resolve_nodeDrain upgrade_env_interactive cluster_ok = ([], Inr (Finite 15))"
  by (simp add: resolve_nodeDrain_def prompt_nodeDrain_def upgrade_env_interactive_simps
      nodeDrainOptions_def bind_def parse_nodeDrain_def ParseFloat_15)

lemma upgrade_run_interactive:
  "upgrade_run upgrade_env_interactive =
     ([OpenConnection,
       Debugf ''Loading cluster `%s`'' [S ''mycluster''],
       AddUpgradePolicy ''id1''
         \<lparr> ScheduleType = ''manual'', Version = ''4.5.20'', NextRun = 1604104500000000000 \<rparr>,
       UpdateCluster ''id1'' (Finite 15),
       Infof ''Upgrade successfully scheduled for cluster `%s`'' [S ''mycluster''],
       CloseConnection],
      Returned)"
proof -
  let ?env = upgrade_env_interactive
  have c: "upgrade_clients ?env = ([OpenConnection], Inr ''arn'')"
    by (rule upgrade_clients_ok) (simp_all add: upgrade_env_interactive_simps)
  have l: "load_cluster ?env ''arn'' =
             ([Debugf ''Loading cluster `%s`'' [S (args_clusterKey ?env)]], Inr cluster_ok)"
    by (rule load_cluster_ready) (simp_all add: upgrade_env_interactive_simps cluster_ok_simps)
  have s: "check_scheduled ?env cluster_ok = ([], Inr ())"
    by (rule check_scheduled_none) (simp add: upgrade_env_interactive_simps)
  have u: "upgrade_connected ?env ''arn'' =
     ([Debugf ''Loading cluster `%s`'' [S ''mycluster''],
       AddUpgradePolicy ''id1''
         \<lparr> ScheduleType = ''manual'', Version = ''4.5.20'', NextRun = 1604104500000000000 \<rparr>,
       UpdateCluster ''id1'' (Finite 15),
       Infof ''Upgrade successfully scheduled for cluster `%s`'' [S ''mycluster'']],
      Inr ())"
    using upgrade_connected_reached[OF l s resolve_version_interactive
        resolve_schedule_interactive]
    by (simp add: resolve_nodeDrain_interactive bind_def submit_def emit_def
        upgrade_env_interactive_simps cluster_ok_simps)
  show ?thesis
    using upgrade_run_connected[OF c]
    by (simp add: u with_deferred_close_def deferred_close_def upgrade_env_interactive_simps)
qed

lemma upgrade_run_no_upgrades:
  assumes "IsValidClusterKey env (args_clusterKey env)" and "aws_NewClient env = None"
    and "GetCreator env = Inr arn" and "NewConnection env = None"
    and "GetCluster env (args_clusterKey env) arn = Inr cluster"
    and "State cluster = ClusterStateReady"
    and "GetScheduledUpgrade env (ID cluster) = Inr None"
    and "GetAvailableUpgrades env (GetVersionID env cluster) = Inr []"
    and "CreateReporterOrExit env = None" and "CreateLoggerOrExit env = None"
  shows "upgrade_run env =
           ([OpenConnection,
             Debugf ''Loading cluster `%s`'' [S (args_clusterKey env)],
             Warnf ''There are no available upgrades'' []],
            Exited 0)"
proof -
  have c: "upgrade_clients env = ([OpenConnection], Inr arn)"
    using assms(1-4) assms(9,10) by (rule upgrade_clients_ok)
  have u: "upgrade_connected env arn =
     ([Debugf ''Loading cluster `%s`'' [S (args_clusterKey env)],
       Warnf ''There are no available upgrades'' []], Inl (Exit 0))"
    unfolding upgrade_connected_def
    by (simp add: bind_def load_cluster_ready[OF assms(5,6)] check_scheduled_none[OF assms(7)]
        resolve_version_empty[OF assms(8)])
  show ?thesis
    using upgrade_run_connected[OF c] by (simp add: u with_deferred_close_Exit)
qed

lemma upgrade_run_invalid_version:
  assumes "IsValidClusterKey env (args_clusterKey env)" and "aws_NewClient env = None"
    and "GetCreator env = Inr arn" and "NewConnection env = None"
    and "GetCluster env (args_clusterKey env) arn = Inr cluster"
    and "State cluster = ClusterStateReady"
    and "GetScheduledUpgrade env (ID cluster) = Inr None"
    and "GetAvailableUpgrades env (GetVersionID env cluster) = Inr availableUpgrades"
    and "availableUpgrades \<noteq> []" and "args_version env \<noteq> ''''"
    and "args_version env \<notin> set availableUpgrades" and "\<not> interactive_Enabled env"
    and "CreateReporterOrExit env = None" and "CreateLoggerOrExit env = None"
  shows "upgrade_run env =
           ([OpenConnection,
             Debugf ''Loading cluster `%s`'' [S (args_clusterKey env)],
             Errorf ''Expected a valid version to upgrade to'' []],
            Exited 1)"
proof -
  have c: "upgrade_clients env = ([OpenConnection], Inr arn)"
    using assms(1-4) assms(13,14) by (rule upgrade_clients_ok)
  have v: "resolve_version env cluster =
             ([Errorf ''Expected a valid version to upgrade to'' []], Inl (Exit 1))"
    using resolve_version_supplied[OF assms(8,9,10,12)] assms(11) by simp
  have u: "upgrade_connected env arn =
     ([Debugf ''Loading cluster `%s`'' [S (args_clusterKey env)],
       Errorf ''Expected a valid version to upgrade to'' []], Inl (Exit 1))"
    unfolding upgrade_connected_def
    by (simp add: bind_def load_cluster_ready[OF assms(5,6)] check_scheduled_none[OF assms(7)] v)
  show ?thesis
    using upgrade_run_connected[OF c] by (simp add: u with_deferred_close_Exit)
qed

text \<open>
  C6, as stated: every version passed by the caller that is not among the available
  upgrades makes the command fail with a fatal error before any submission. Two runs
  where it does not: with no upgrade available at all the command warns and leaves with
  exit code 0; in interactive mode the version passed is only the default of a prompt,
  and with an available version chosen there the upgrade is scheduled.
\<close>

theorem supplied_version_counterexample:
  "''4.5.99'' \<notin> set ([] :: string list)
   \<and> upgrade_run (upgrade_env_ok
         \<lparr> args_version := ''4.5.99'', GetAvailableUpgrades := (\<lambda>_. Inr []) \<rparr>) =
       ([OpenConnection,
         Debugf ''Loading cluster `%s`'' [S ''mycluster''],
         Warnf ''There are no available upgrades'' []],
        Exited 0)
   \<and> args_version upgrade_env_interactive = ''4.5.99''
   \<and> GetAvailableUpgrades upgrade_env_interactive
         (GetVersionID upgrade_env_interactive cluster_ok) = Inr [''4.5.20'', ''4.5.21'']
   \<and> ''4.5.99'' \<notin> set [''4.5.20'', ''4.5.21'']
   \<and> upgrade_run upgrade_env_interactive =
       ([OpenConnection,
         Debugf ''Loading cluster `%s`'' [S ''mycluster''],
         AddUpgradePolicy ''id1''
           \<lparr> ScheduleType = ''manual'', Version = ''4.5.20'', NextRun = 1604104500000000000 \<rparr>,
         UpdateCluster ''id1'' (Finite 15),
         Infof ''Upgrade successfully scheduled for cluster `%s`'' [S ''mycluster''],
         CloseConnection],
        Returned)"
proof -
  let ?env = "upgrade_env_ok \<lparr> args_version := ''4.5.99'', GetAvailableUpgrades := (\<lambda>_. Inr []) \<rparr>"
  have "upgrade_run ?env =
           ([OpenConnection,
             Debugf ''Loading cluster `%s`'' [S (args_clusterKey ?env)],
             Warnf ''There are no available upgrades'' []],
            Exited 0)"
    by (rule upgrade_run_no_upgrades[where arn = "''arn''" and cluster = cluster_ok])
      (simp_all add: upgrade_env_ok_simps cluster_ok_simps)
  then show ?thesis
    by (simp add: upgrade_env_ok_simps upgrade_env_interactive_simps upgrade_run_interactive)
qed

text \<open>
  C6, amended. Without prompts, a version that is passed and is not among the upgrades
  available, of which there is at least one, makes the command report an error and leave
  with exit code 1, and no mutating request is sent. In every mode, an upgrade policy
  that is sent names one of the available upgrades.
\<close>

theorem upgrade_invalid_version:
  assumes "IsValidClusterKey env (args_clusterKey env)" and "aws_NewClient env = None"
    and "GetCreator env = Inr arn" and "NewConnection env = None"
    and "GetCluster env (args_clusterKey env) arn = Inr cluster"
    and "State cluster = ClusterStateReady"
    and "GetScheduledUpgrade env (ID cluster) = Inr None"
    and "GetAvailableUpgrades env (GetVersionID env cluster) = Inr availableUpgrades"
    and "availableUpgrades \<noteq> []" and "args_version env \<noteq> ''''"
    and "args_version env \<notin> set availableUpgrades" and "\<not> interactive_Enabled env"
    and "CreateReporterOrExit env = None" and "CreateLoggerOrExit env = None"
  shows "upgrade_run env =
           ([OpenConnection,
             Debugf ''Loading cluster `%s`'' [S (args_clusterKey env)],
             Errorf ''Expected a valid version to upgrade to'' []],
            Exited 1)
         \<and> mutations (fst (upgrade_run env)) = []
         \<and> (AddUpgradePolicy cid p \<in> set (fst (upgrade_run env')) \<longrightarrow>
              (\<exists>arn' cluster' available.
                 GetCreator env' = Inr arn'
                 \<and> GetCluster env' (args_clusterKey env') arn' = Inr cluster'
                 \<and> GetAvailableUpgrades env' (GetVersionID env' cluster') = Inr available
                 \<and> Version p \<in> set available))"
proof -
  have r: "upgrade_run env =
           ([OpenConnection,
             Debugf ''Loading cluster `%s`'' [S (args_clusterKey env)],
             Errorf ''Expected a valid version to upgrade to'' []],
            Exited 1)"
    using assms by (rule upgrade_run_invalid_version)
  have sent: "\<exists>arn' cluster' available.
                 GetCreator env' = Inr arn'
                 \<and> GetCluster env' (args_clusterKey env') arn' = Inr cluster'
                 \<and> GetAvailableUpgrades env' (GetVersionID env' cluster') = Inr available
                 \<and> Version p \<in> set available"
    if a: "AddUpgradePolicy cid p \<in> set (fst (upgrade_run env'))"
  proof -
    from a have in_m: "AddUpgradePolicy cid p \<in> set (mutations (fst (upgrade_run env')))"
      by (simp add: mutations_def)
    then have ne: "mutations (fst (upgrade_run env')) \<noteq> []" by auto
    from upgrade_run_submitted[OF ne] obtain pre arn' cluster' q w where
      f: "fst (upgrade_run env') =
            pre @ fst (with_deferred_close (Close env') (submit env' cluster' q w))"
      and p: "mutations pre = []"
      and g: "GetCreator env' = Inr arn'" "GetCluster env' (args_clusterKey env') arn' = Inr cluster'"
      and v: "snd (resolve_version env' cluster') = Inr (Version q)"
      by blast
    have "mutations (fst (upgrade_run env')) = mutations (fst (submit env' cluster' q w))"
      unfolding f by (simp add: p)
    then have "p = q"
      using in_m mutations_submit_cases[of env' cluster' q w] by auto
    then show ?thesis
      using resolve_version_available[OF v] g by blast
  qed
  show ?thesis
    unfolding r using sent by (simp add: mutations_Cons)
qed

theorem upgrade_invalid_version_witness:
  "upgrade_run (upgrade_env_ok \<lparr> args_version := ''4.5.99'' \<rparr>) =
     ([OpenConnection,
       Debugf ''Loading cluster `%s`'' [S ''mycluster''],
       Errorf ''Expected a valid version to upgrade to'' []],
      Exited 1)
   \<and> mutations (fst (upgrade_run (upgrade_env_ok \<lparr> args_version := ''4.5.99'' \<rparr>))) = []
   \<and> (\<exists>available. GetAvailableUpgrades upgrade_env_interactive
           (GetVersionID upgrade_env_interactive cluster_ok) = Inr available
         \<and> ''4.5.20'' \<in> set available)"
proof -
  let ?env = "upgrade_env_ok \<lparr> args_version := ''4.5.99'' \<rparr>"
  let ?p = "\<lparr> ScheduleType = ''manual'', Version = ''4.5.20'', NextRun = 1604104500000000000 \<rparr>"
  have sent: "AddUpgradePolicy ''id1'' ?p \<in> set (fst (upgrade_run upgrade_env_interactive))"
    by (simp add: upgrade_run_interactive)
  have "upgrade_run ?env =
           ([OpenConnection,
             Debugf ''Loading cluster `%s`'' [S (args_clusterKey ?env)],
             Errorf ''Expected a valid version to upgrade to'' []],
            Exited 1)
         \<and> mutations (fst (upgrade_run ?env)) = []
         \<and> (AddUpgradePolicy ''id1'' ?p \<in> set (fst (upgrade_run upgrade_env_interactive)) \<longrightarrow>
              (\<exists>arn' cluster' available.
                 GetCreator upgrade_env_interactive = Inr arn'
                 \<and> GetCluster upgrade_env_interactive (args_clusterKey upgrade_env_interactive) arn'
                     = Inr cluster'
                 \<and> GetAvailableUpgrades upgrade_env_interactive
                      (GetVersionID upgrade_env_interactive cluster') = Inr available
                 \<and> Version ?p \<in> set available))"
    by (rule upgrade_invalid_version[where arn = "''arn''" and cluster = cluster_ok
          and availableUpgrades = "[''4.5.20'', ''4.5.21'']"])
      (simp_all add: upgrade_env_ok_simps cluster_ok_simps)
  then show ?thesis
    using sent by (simp add: upgrade_env_ok_simps upgrade_env_interactive_simps mutations_Cons)
qed

section \<open>The upgrade command: the default time of the next run\<close>

lemma truncate_to_minute:
  fixes x :: int
  shows "x - Minute < x - x mod Minute" and "x - x mod Minute \<le> x"
proof -
  define r where "r = x mod Minute"
  have "0 \<le> r" "r < Minute" unfolding r_def by (simp_all add: Minute_def)
  then show "x - Minute < x - x mod Minute" and "x - x mod Minute \<le> x"
    unfolding r_def[symmetric] by simp_all
qed

text \<open>
  C9. Without prompts and with neither \<open>--schedule-date\<close> nor \<open>--schedule-time\<close>, the
  time of the next run is the clock plus ten minutes, cut to the minute by rendering it
  as a date and a time and parsing these again. The upgrade policy that is sent carries
  this time, which lies between nine and eleven minutes after the clock. The clock plus
  ten minutes is taken to lie in the years 1970 to 9999, where a year has four digits.
\<close>

theorem default_nextRun_window:
  assumes "\<not> interactive_Enabled env" and "args_scheduleDate env = ''''"
    and "args_scheduleTime env = ''''" and "Format_exact (Now env + Minute * 10)"
  shows "resolve_schedule env =
           ([], Inr (Now env + Minute * 10 - (Now env + Minute * 10) mod Minute))
         \<and> (AddUpgradePolicy cid p \<in> set (fst (upgrade_run env)) \<longrightarrow>
               NextRun p = Now env + Minute * 10 - (Now env + Minute * 10) mod Minute
               \<and> Now env + 9 * Minute \<le> NextRun p \<and> NextRun p \<le> Now env + 11 * Minute)"
proof -
  let ?t = "Now env + Minute * 10"
  have rs: "resolve_schedule env = ([], Inr (?t - ?t mod Minute))"
    using assms by (rule resolve_schedule_default)
  have w: "Now env + 9 * Minute \<le> ?t - ?t mod Minute" "?t - ?t mod Minute \<le> Now env + 11 * Minute"
    using truncate_to_minute[of ?t] by (simp_all add: Minute_def)
  have "NextRun p = ?t - ?t mod Minute"
    if a: "AddUpgradePolicy cid p \<in> set (fst (upgrade_run env))"
  proof -
    from a have in_m: "AddUpgradePolicy cid p \<in> set (mutations (fst (upgrade_run env)))"
      by (simp add: mutations_def)
    then have ne: "mutations (fst (upgrade_run env)) \<noteq> []" by auto
    from upgrade_run_submitted[OF ne] obtain pre cluster q v where
      f: "fst (upgrade_run env) =
            pre @ fst (with_deferred_close (Close env) (submit env cluster q v))"
      and p: "mutations pre = []"
      and n: "snd (resolve_schedule env) = Inr (NextRun q)"
      by blast
    have "mutations (fst (upgrade_run env)) = mutations (fst (submit env cluster q v))"
      unfolding f by (simp add: p)
    then have "p = q"
      using in_m mutations_submit_cases[of env cluster q v] by auto
    then show ?thesis using n rs by simp
  qed
  then show ?thesis using rs w by simp
qed

theorem default_nextRun_window_witness:
  "resolve_schedule upgrade_env_ok = ([], Inr 1604104500000000000)
   \<and> AddUpgradePolicy ''id1''
        \<lparr> ScheduleType = ''manual'', Version = ''4.5.20'', NextRun = 1604104500000000000 \<rparr>
       \<in> set (fst (upgrade_run upgrade_env_ok))
   \<and> Now upgrade_env_ok + 9 * Minute \<le> 1604104500000000000
   \<and> (1604104500000000000 :: int) \<le> Now upgrade_env_ok + 11 * Minute"
proof -
  let ?p = "\<lparr> ScheduleType = ''manual'', Version = ''4.5.20'', NextRun = 1604104500000000000 \<rparr>"
  have sent: "AddUpgradePolicy ''id1'' ?p \<in> set (fst (upgrade_run upgrade_env_ok))"
    by (simp add: upgrade_run_ok)
  have "resolve_schedule upgrade_env_ok =
           ([], Inr (Now upgrade_env_ok + Minute * 10
                     - (Now upgrade_env_ok + Minute * 10) mod Minute))
         \<and> (AddUpgradePolicy ''id1'' ?p \<in> set (fst (upgrade_run upgrade_env_ok)) \<longrightarrow>
               NextRun ?p = Now upgrade_env_ok + Minute * 10
                            - (Now upgrade_env_ok + Minute * 10) mod Minute
               \<and> Now upgrade_env_ok + 9 * Minute \<le> NextRun ?p
               \<and> NextRun ?p \<le> Now upgrade_env_ok + 11 * Minute)"
    by (rule default_nextRun_window)
      (simp_all add: upgrade_env_ok_simps Format_exact_def Minute_def)
  then show ?thesis
    using sent by (simp add: upgrade_env_ok_simps Minute_def)
qed

section \<open>The upgrade command: the grace period stored on the cluster\<close>








end
